theory Spec2Isabelle
  imports
    Main
    "HOL-Library.Word"
    "HOL-Library.Char_ord"
    "HOL-Library.List_Lexorder"
    "HOL-Library.Multiset"
begin

section \<open>The offline-first task store and its synchronisation engine\<close>

text \<open>
  The development embeds three source files: the task service (\<^verbatim>\<open>TaskService\<close>), the
  synchronisation client (\<^verbatim>\<open>SyncService\<close>, file \<^verbatim>\<open>services/syncService.ts\<close>) and the
  receiving side of a batch (\<^verbatim>\<open>routes/sync.ts\<close>).

  Conventions of the embedding.
  \<^item> The relational store is three tables, each a list of rows in insertion order.
    \<^verbatim>\<open>INSERT\<close> appends a row, \<^verbatim>\<open>UPDATE ... WHERE\<close> rewrites every row the condition
    selects, \<^verbatim>\<open>DELETE ... WHERE\<close> drops every such row, and a single-row \<^verbatim>\<open>SELECT\<close>
    (\<^verbatim>\<open>db.get\<close>) returns the first row selected. Statements are taken to succeed: a
    failure of the storage engine itself is not part of the model.
  \<^item> The clock (\<^verbatim>\<open>new Date()\<close>), the identifier generator (\<^verbatim>\<open>uuidv4()\<close>) and the network
    are inputs of the program. A \<open>runtime\<close> gives the value that each successive read
    returns, and the field \<open>tick\<close> of the state counts the reads made so far.
  \<^item> A timestamp is a number of milliseconds. A \<^verbatim>\<open>Date\<close> written to the store with
    \<^verbatim>\<open>toISOString()\<close> and read back with \<^verbatim>\<open>new Date(...)\<close> is the same number.
  \<^item> An asynchronous function that can reject returns a sum: \<open>Inl\<close> carries the message
    of the error thrown, \<open>Inr\<close> the value returned.
\<close>

subsection \<open>Data\<close>

datatype sync_status = Pending | InProgress | Synced | Error | Failed

text \<open>
  A date-typed field of an object. Inside the process it holds a \<^verbatim>\<open>Date\<close> object; in
  an object decoded from JSON (a request body, a response body, the \<^verbatim>\<open>data\<close> column of
  the queue) it holds the ISO string of that date, because \<^verbatim>\<open>JSON.stringify\<close> renders a
  \<^verbatim>\<open>Date\<close> with \<^verbatim>\<open>toISOString()\<close> and \<^verbatim>\<open>JSON.parse\<close> leaves the string as it is.
\<close>

datatype jsdate = DateObj int | IsoString int

text \<open>A row of the table \<^verbatim>\<open>tasks\<close>, and the \<^verbatim>\<open>Task\<close> object read from it.\<close>

record task =
  t_id :: string
  t_title :: string
  t_description :: string
  t_completed :: bool
  t_created_at :: int
  t_updated_at :: int
  t_is_deleted :: bool
  t_sync_status :: sync_status
  t_server_id :: "string option"
  t_last_synced_at :: "int option"

text \<open>
  \<^verbatim>\<open>Partial<Task>\<close>: any object of the shape of a task, each property either present with
  a value of its declared type or absent (\<^verbatim>\<open>undefined\<close>); a property that is \<^verbatim>\<open>null\<close> is
  not modelled. This is the type of a payload, of the snapshot kept in a queue entry and
  of the \<^verbatim>\<open>resolved_data\<close> of an outcome.
\<close>

record task_data =
  p_id :: "string option"
  p_title :: "string option"
  p_description :: "string option"
  p_completed :: "bool option"
  p_created_at :: "jsdate option"
  p_updated_at :: "jsdate option"
  p_is_deleted :: "bool option"
  p_sync_status :: "sync_status option"
  p_server_id :: "string option"
  p_last_synced_at :: "jsdate option"

text \<open>A row of the table \<^verbatim>\<open>sync_queue\<close>, and the \<^verbatim>\<open>SyncQueueItem\<close> read from it.\<close>

record sync_queue_item =
  q_id :: string
  q_task_id :: string
  q_operation :: string
  q_data :: task_data
  q_created_at :: int
  q_retry_count :: nat
  q_error_message :: "string option"

text \<open>A row of the table \<^verbatim>\<open>dead_letter_queue\<close>.\<close>

record dead_letter =
  d_id :: string
  d_original_queue_id :: string
  d_task_id :: string
  d_operation :: string
  d_data :: task_data
  d_error_message :: string
  d_retry_count :: nat
  d_failed_at :: int

text \<open>One outcome of a batch, as the receiving side builds it and the client reads it.\<close>

datatype outcome_status = StatusSuccess | StatusError

record processed_item =
  o_client_id :: string
  o_server_id :: "string option"
  o_status :: outcome_status
  o_resolved_data :: "task_data option"
  o_error :: "string option"

record batch_request =
  r_items :: "sync_queue_item list"
  r_client_timestamp :: int
  r_checksum :: string

text \<open>
  What the program reads from its environment. \<open>axios_get\<close> and \<open>axios_post\<close> are the
  two network calls: \<open>Inl\<close> is a rejected promise (timeout, refused connection, error
  status). \<open>sha256\<close> and \<open>JSON_stringify\<close> are the library functions the checksum is
  built from. \<open>batchSize\<close> is \<^verbatim>\<open>parseInt(process.env.SYNC_BATCH_SIZE || '50')\<close>, which
  is \<^verbatim>\<open>NaN\<close> (here \<open>None\<close>) when the variable holds no number. The two messages are
  the texts the engine gives its \<^verbatim>\<open>TypeError\<close>s.
\<close>

record runtime =
  date_at :: "nat \<Rightarrow> int"
  uuid_at :: "nat \<Rightarrow> string"
  axios_get :: "nat \<Rightarrow> string + unit"
  axios_post :: "nat \<Rightarrow> batch_request \<Rightarrow> string + processed_item list"
  sha256 :: "string \<Rightarrow> 256 word"
  JSON_stringify :: "task_data \<Rightarrow> string"
  batchSize :: "int option"
  msg_not_a_function :: string
  msg_undefined_read :: string

record world =
  tasks :: "task list"
  sync_queue :: "sync_queue_item list"
  dead_letter_queue :: "dead_letter list"
  tick :: nat

definition new_Date :: "runtime \<Rightarrow> world \<Rightarrow> int \<times> world" where
  "new_Date rt w = (date_at rt (tick w), w\<lparr>tick := Suc (tick w)\<rparr>)"

definition uuidv4 :: "runtime \<Rightarrow> world \<Rightarrow> string \<times> world" where
  "uuidv4 rt w = (uuid_at rt (tick w), w\<lparr>tick := Suc (tick w)\<rparr>)"

subsection \<open>Values of the language\<close>

text \<open>\<^verbatim>\<open>s || d\<close> for an optional string: an absent and an empty string are falsy.\<close>

definition or_str :: "string option \<Rightarrow> string \<Rightarrow> string" where
  "or_str s d = (case s of None \<Rightarrow> d | Some v \<Rightarrow> if v = [] then d else v)"

text \<open>\<^verbatim>\<open>s || undefined\<close> (and \<^verbatim>\<open>s || null\<close>).\<close>

definition truthy_str :: "string option \<Rightarrow> string option" where
  "truthy_str s = (case s of None \<Rightarrow> None | Some v \<Rightarrow> if v = [] then None else Some v)"

text \<open>\<^verbatim>\<open>new Date(v).getTime()\<close>; an absent value gives \<^verbatim>\<open>NaN\<close>, here \<open>None\<close>.\<close>

definition getTime :: "jsdate option \<Rightarrow> int option" where
  "getTime v = (case v of None \<Rightarrow> None | Some (DateObj t) \<Rightarrow> Some t | Some (IsoString t) \<Rightarrow> Some t)"

text \<open>\<^verbatim>\<open>a > b\<close> on numbers: false as soon as \<open>b\<close> is \<^verbatim>\<open>NaN\<close>.\<close>

definition js_gt :: "int \<Rightarrow> int option \<Rightarrow> bool" where
  "js_gt a b = (case b of None \<Rightarrow> False | Some v \<Rightarrow> a > v)"

text \<open>A \<^verbatim>\<open>Task\<close> object seen as an object with optional properties.\<close>

definition task_obj :: "task \<Rightarrow> task_data" where
  "task_obj t =
     \<lparr>p_id = Some (t_id t), p_title = Some (t_title t),
      p_description = Some (t_description t), p_completed = Some (t_completed t),
      p_created_at = Some (DateObj (t_created_at t)),
      p_updated_at = Some (DateObj (t_updated_at t)),
      p_is_deleted = Some (t_is_deleted t), p_sync_status = Some (t_sync_status t),
      p_server_id = t_server_id t,
      p_last_synced_at = map_option DateObj (t_last_synced_at t)\<rparr>"

text \<open>The object spread \<^verbatim>\<open>{...a, ...b}\<close>: a property of \<open>b\<close> wins where \<open>b\<close> has it.\<close>

definition or_else :: "'a option \<Rightarrow> 'a option \<Rightarrow> 'a option" where
  "or_else b a = (case b of None \<Rightarrow> a | Some v \<Rightarrow> Some v)"

definition spread :: "task_data \<Rightarrow> task_data \<Rightarrow> task_data" where
  "spread a b =
     \<lparr>p_id = or_else (p_id b) (p_id a), p_title = or_else (p_title b) (p_title a),
      p_description = or_else (p_description b) (p_description a),
      p_completed = or_else (p_completed b) (p_completed a),
      p_created_at = or_else (p_created_at b) (p_created_at a),
      p_updated_at = or_else (p_updated_at b) (p_updated_at a),
      p_is_deleted = or_else (p_is_deleted b) (p_is_deleted a),
      p_sync_status = or_else (p_sync_status b) (p_sync_status a),
      p_server_id = or_else (p_server_id b) (p_server_id a),
      p_last_synced_at = or_else (p_last_synced_at b) (p_last_synced_at a)\<rparr>"

text \<open>\<^verbatim>\<open>JSON.parse(JSON.stringify(d))\<close>: every \<^verbatim>\<open>Date\<close> becomes its ISO string.\<close>

definition json_date :: "jsdate \<Rightarrow> jsdate" where
  "json_date v = (case v of DateObj t \<Rightarrow> IsoString t | IsoString t \<Rightarrow> IsoString t)"

definition json :: "task_data \<Rightarrow> task_data" where
  "json d = d\<lparr>p_created_at := map_option json_date (p_created_at d),
             p_updated_at := map_option json_date (p_updated_at d),
             p_last_synced_at := map_option json_date (p_last_synced_at d)\<rparr>"

subsection \<open>The task service\<close>

definition mapRowToTask :: "task \<Rightarrow> task" where
  "mapRowToTask row = row\<lparr>t_server_id := truthy_str (t_server_id row)\<rparr>"

definition addToSyncQueue :: "runtime \<Rightarrow> string \<Rightarrow> string \<Rightarrow> task_data \<Rightarrow> world \<Rightarrow> world" where
  "addToSyncQueue rt taskId operation d w =
     (let (queueId, w1) = uuidv4 rt w;
          (now, w2) = new_Date rt w1
      in w2\<lparr>sync_queue := sync_queue w2 @
            [\<lparr>q_id = queueId, q_task_id = taskId, q_operation = operation, q_data = json d,
              q_created_at = now, q_retry_count = 0, q_error_message = None\<rparr>]\<rparr>)"

definition getTask :: "string \<Rightarrow> world \<Rightarrow> task option" where
  "getTask i w =
     (case find (\<lambda>r. t_id r = i \<and> \<not> t_is_deleted r) (tasks w) of
        None \<Rightarrow> None
      | Some row \<Rightarrow> Some (mapRowToTask row))"

text \<open>
  \<^verbatim>\<open>createTask\<close> builds the task, then the argument list of the \<^verbatim>\<open>INSERT\<close>. The last
  argument is \<^verbatim>\<open>task.last_synced_at?.toISOString() || null\<close>, with
  \<^verbatim>\<open>task.last_synced_at = taskData.last_synced_at || undefined\<close>: a string has no method
  \<^verbatim>\<open>toISOString\<close>, so the call throws a \<^verbatim>\<open>TypeError\<close> before the statement runs.
\<close>

definition createTask :: "runtime \<Rightarrow> task_data \<Rightarrow> world \<Rightarrow> (string + task) \<times> world" where
  "createTask rt taskData w =
     (let (newId, w1) = uuidv4 rt w;
          (created, w2) = new_Date rt w1;
          (updated, w3) = new_Date rt w2
      in case p_last_synced_at taskData of
           Some (IsoString s) \<Rightarrow> (Inl (msg_not_a_function rt), w3)
         | lsa \<Rightarrow>
             (let t = \<lparr>t_id = newId, t_title = or_str (p_title taskData) [],
                        t_description = or_str (p_description taskData) [],
                        t_completed = (case p_completed taskData of None \<Rightarrow> False | Some c \<Rightarrow> c),
                        t_created_at = created, t_updated_at = updated,
                        t_is_deleted = False, t_sync_status = Pending,
                        t_server_id = truthy_str (p_server_id taskData),
                        t_last_synced_at = getTime lsa\<rparr>;
                  w4 = w3\<lparr>tasks := tasks w3 @ [t]\<rparr>
              in (Inr t, addToSyncQueue rt newId ''create'' (task_obj t) w4)))"

text \<open>
  \<^verbatim>\<open>updateTask\<close>. The same call \<^verbatim>\<open>updatedTask.last_synced_at?.toISOString()\<close> stands in
  the argument list of the \<^verbatim>\<open>UPDATE\<close>; \<^verbatim>\<open>updatedTask\<close> is the stored task overlaid with the
  updates, so the property is a string whenever the updates carry one.
\<close>

definition updateTask ::
  "runtime \<Rightarrow> string \<Rightarrow> task_data \<Rightarrow> world \<Rightarrow> (string + task_data option) \<times> world" where
  "updateTask rt i updates w =
     (case getTask i w of
        None \<Rightarrow> (Inr None, w)
      | Some existing \<Rightarrow>
          (let (now, w1) = new_Date rt w;
               updatedTask = (spread (task_obj existing) updates)
                 \<lparr>p_updated_at := Some (DateObj now), p_sync_status := Some Pending\<rparr>
           in case p_last_synced_at updatedTask of
                Some (IsoString s) \<Rightarrow> (Inl (msg_not_a_function rt), w1)
              | lsa \<Rightarrow>
                  (let w2 = w1\<lparr>tasks := map (\<lambda>r.
                         if t_id r = i \<and> \<not> t_is_deleted r
                         then r\<lparr>t_title := (case p_title updates of None \<Rightarrow> t_title existing | Some v \<Rightarrow> v),
                                t_description := or_str (p_description updatedTask) [],
                                t_completed := (case p_completed updates of None \<Rightarrow> t_completed existing | Some c \<Rightarrow> c),
                                t_updated_at := now,
                                t_sync_status := Pending,
                                t_server_id := truthy_str (p_server_id updatedTask),
                                t_last_synced_at := getTime lsa\<rparr>
                         else r) (tasks w1)\<rparr>
                   in (Inr (Some updatedTask), addToSyncQueue rt i ''update'' updatedTask w2))))"

definition deleteTask :: "runtime \<Rightarrow> string \<Rightarrow> world \<Rightarrow> bool \<times> world" where
  "deleteTask rt i w =
     (case find (\<lambda>r. t_id r = i \<and> \<not> t_is_deleted r) (tasks w) of
        None \<Rightarrow> (False, w)
      | Some existing \<Rightarrow>
          (let (now, w1) = new_Date rt w;
               w2 = w1\<lparr>tasks := map (\<lambda>r.
                      if t_id r = i
                      then r\<lparr>t_is_deleted := True, t_updated_at := now, t_sync_status := Pending\<rparr>
                      else r) (tasks w1)\<rparr>;
               taskData = (mapRowToTask existing)\<lparr>t_is_deleted := True, t_updated_at := now\<rparr>
           in (True, addToSyncQueue rt i ''delete'' (task_obj taskData) w2)))"

subsection \<open>The receiving side of a batch (\<^verbatim>\<open>routes/sync.ts\<close>)\<close>

fun join :: "string \<Rightarrow> string list \<Rightarrow> string" where
  "join sep [] = []"
| "join sep [x] = x"
| "join sep (x # y # ys) = x @ sep @ join sep (y # ys)"

text \<open>\<^verbatim>\<open>digest('hex')\<close>: the 64 hexadecimal digits of the digest, the highest first.\<close>

definition hex_char :: "nat \<Rightarrow> char" where
  "hex_char n = ''0123456789abcdef'' ! n"

definition nibble :: "256 word \<Rightarrow> nat \<Rightarrow> nat" where
  "nibble h i = unat (take_bit 4 (drop_bit (4 * i) h))"

definition hex_digest :: "256 word \<Rightarrow> string" where
  "hex_digest h = map (\<lambda>i. hex_char (nibble h (63 - i))) [0..<64]"

text \<open>
  \<^verbatim>\<open>calculateChecksum\<close> of \<^verbatim>\<open>routes/sync.ts\<close>: one segment per item, in order, joined
  with a bar, hashed, rendered in hexadecimal.
\<close>

definition calculateChecksum :: "runtime \<Rightarrow> sync_queue_item list \<Rightarrow> string" where
  "calculateChecksum rt items =
     (let dataString =
            join ''|'' (map (\<lambda>item. q_id item @ ''-'' @ q_operation item @ ''-'' @
                                       JSON_stringify rt (q_data item)) items)
      in hex_digest (sha256 rt dataString))"

definition error_outcome :: "sync_queue_item \<Rightarrow> string \<Rightarrow> processed_item" where
  "error_outcome item msg =
     \<lparr>o_client_id = q_task_id item, o_server_id = None, o_status = StatusError,
      o_resolved_data = None, o_error = Some msg\<rparr>"

definition handleBatchCreate :: "runtime \<Rightarrow> sync_queue_item \<Rightarrow> world \<Rightarrow> processed_item \<times> world" where
  "handleBatchCreate rt item w =
     (case createTask rt (q_data item) w of
        (Inr t, w1) \<Rightarrow>
          (\<lparr>o_client_id = q_task_id item, o_server_id = Some (t_id t),
            o_status = StatusSuccess, o_resolved_data = Some (task_obj t), o_error = None\<rparr>, w1)
      | (Inl msg, w1) \<Rightarrow> (error_outcome item msg, w1))"

text \<open>\<^verbatim>\<open>finalData.server_id || finalData.id\<close>\<close>

definition server_id_or_id :: "task_data \<Rightarrow> string option" where
  "server_id_or_id d = (case truthy_str (p_server_id d) of None \<Rightarrow> p_id d | Some s \<Rightarrow> Some s)"

definition update_outcome :: "sync_queue_item \<Rightarrow> task_data \<Rightarrow> processed_item" where
  "update_outcome item finalData =
     \<lparr>o_client_id = q_task_id item, o_server_id = server_id_or_id finalData,
      o_status = StatusSuccess, o_resolved_data = Some finalData, o_error = None\<rparr>"

definition handleBatchUpdate :: "runtime \<Rightarrow> sync_queue_item \<Rightarrow> world \<Rightarrow> processed_item \<times> world" where
  "handleBatchUpdate rt item w =
     (case getTask (q_task_id item) w of
        None \<Rightarrow>
          (case createTask rt (q_data item) w of
             (Inr t, w1) \<Rightarrow>
               (\<lparr>o_client_id = q_task_id item, o_server_id = Some (t_id t),
                 o_status = StatusSuccess, o_resolved_data = Some (task_obj t),
                 o_error = None\<rparr>, w1)
           | (Inl msg, w1) \<Rightarrow> (error_outcome item msg, w1))
      | Some existingTask \<Rightarrow>
          (let serverTime = t_updated_at existingTask;
               clientTime = getTime (p_updated_at (q_data item))
           in if js_gt serverTime clientTime
              then (update_outcome item (task_obj existingTask), w)
              else (case updateTask rt (q_task_id item) (q_data item) w of
                      (Inr updatedTask, w1) \<Rightarrow>
                        (update_outcome item
                           (case updatedTask of None \<Rightarrow> task_obj existingTask | Some u \<Rightarrow> u), w1)
                    | (Inl msg, w1) \<Rightarrow> (error_outcome item msg, w1))))"

definition handleBatchDelete :: "runtime \<Rightarrow> sync_queue_item \<Rightarrow> world \<Rightarrow> processed_item \<times> world" where
  "handleBatchDelete rt item w =
     (let (deleted, w1) = deleteTask rt (q_task_id item) w
      in (\<lparr>o_client_id = q_task_id item, o_server_id = Some (q_task_id item),
           o_status = StatusSuccess,
           o_resolved_data = Some ((q_data item)\<lparr>p_is_deleted := Some True\<rparr>),
           o_error = None\<rparr>, w1))"

text \<open>The body of the loop of \<^verbatim>\<open>POST /batch\<close>: the \<^verbatim>\<open>switch\<close> on the operation.\<close>

definition process_item :: "runtime \<Rightarrow> sync_queue_item \<Rightarrow> world \<Rightarrow> processed_item \<times> world" where
  "process_item rt item w =
     (if q_operation item = ''create'' then handleBatchCreate rt item w
      else if q_operation item = ''update'' then handleBatchUpdate rt item w
      else if q_operation item = ''delete'' then handleBatchDelete rt item w
      else (error_outcome item (''Unknown operation: '' @ q_operation item), w))"

fun process_items ::
  "runtime \<Rightarrow> sync_queue_item list \<Rightarrow> world \<Rightarrow> processed_item list \<times> world" where
  "process_items rt [] w = ([], w)"
| "process_items rt (item # rest) w =
     (let (result, w1) = process_item rt item w;
          (results, w2) = process_items rt rest w1
      in (result # results, w2))"

text \<open>
  The body of a request. \<^verbatim>\<open>items\<close> is absent (or \<^verbatim>\<open>null\<close>), some value that is not an
  array, or an array of items. \<^verbatim>\<open>client_timestamp\<close> and \<^verbatim>\<open>checksum\<close> are tested for
  truthiness only: an absent and an empty string both count as not given.
\<close>

datatype body_items = ItemsMissing | ItemsNotArray | ItemsArray "sync_queue_item list"

record batch_body =
  b_items :: body_items
  b_client_timestamp :: "string option"
  b_checksum :: "string option"

datatype response = Status400 string int | Status200 "processed_item list"

definition bad_request :: "runtime \<Rightarrow> string \<Rightarrow> world \<Rightarrow> response \<times> world" where
  "bad_request rt msg w = (let (now, w1) = new_Date rt w in (Status400 msg now, w1))"

definition post_batch :: "runtime \<Rightarrow> batch_body \<Rightarrow> world \<Rightarrow> response \<times> world" where
  "post_batch rt body w =
     (case b_items body of
        ItemsMissing \<Rightarrow> bad_request rt ''Invalid batch request - items array is required'' w
      | ItemsNotArray \<Rightarrow> bad_request rt ''Invalid batch request - items array is required'' w
      | ItemsArray items \<Rightarrow>
          if length items = 0
          then bad_request rt ''Invalid batch request - items array is required'' w
          else if truthy_str (b_client_timestamp body) = None
          then bad_request rt ''Client timestamp is required'' w
          else (case truthy_str (b_checksum body) of
                  Some checksum \<Rightarrow>
                    if calculateChecksum rt items \<noteq> checksum
                    then bad_request rt ''Batch integrity check failed - checksum mismatch'' w
                    else (let (processed_items, w1) = process_items rt items w
                          in (Status200 processed_items, w1))
                | None \<Rightarrow>
                    (let (processed_items, w1) = process_items rt items w
                     in (Status200 processed_items, w1))))"

subsection \<open>The synchronisation client (\<^verbatim>\<open>services/syncService.ts\<close>)\<close>

record sync_error =
  e_task_id :: string
  e_operation :: string
  e_error :: string
  e_timestamp :: int

record sync_result =
  success :: bool
  synced_items :: nat
  failed_items :: nat
  errors :: "sync_error list"

text \<open>The probe: a \<^verbatim>\<open>GET\<close> of the health endpoint inside \<^verbatim>\<open>try\<close>/\<^verbatim>\<open>catch\<close>.\<close>

definition checkConnectivity :: "runtime \<Rightarrow> world \<Rightarrow> (string + bool) \<times> world" where
  "checkConnectivity rt w =
     (let reply = axios_get rt (tick w);
          w1 = w\<lparr>tick := Suc (tick w)\<rparr>
      in (case reply of Inr u \<Rightarrow> Inr True | Inl msg \<Rightarrow> Inr False, w1))"

text \<open>
  \<^verbatim>\<open>SELECT * FROM sync_queue WHERE retry_count < 3 ORDER BY task_id, created_at ASC\<close>.
  The sort is by the pair of the two columns, the task identifier first; text compares
  byte by byte. The column \<^verbatim>\<open>created_at\<close> holds ISO strings of one fixed width, which sort
  as the instants they denote, so the model compares the numbers. The mapping of a row to
  an item changes nothing in this representation.
\<close>

definition queue_le :: "sync_queue_item \<Rightarrow> sync_queue_item \<Rightarrow> bool" where
  "queue_le a b =
     (q_task_id a < q_task_id b \<or> (q_task_id a = q_task_id b \<and> q_created_at a \<le> q_created_at b))"

fun insort_queue :: "sync_queue_item \<Rightarrow> sync_queue_item list \<Rightarrow> sync_queue_item list" where
  "insort_queue x [] = [x]"
| "insort_queue x (y # ys) = (if queue_le x y then x # y # ys else y # insort_queue x ys)"

definition order_by_task_id_created_at :: "sync_queue_item list \<Rightarrow> sync_queue_item list" where
  "order_by_task_id_created_at rows = foldr insort_queue rows []"

definition getSyncQueueItems :: "world \<Rightarrow> sync_queue_item list" where
  "getSyncQueueItems w =
     order_by_task_id_created_at (filter (\<lambda>row. q_retry_count row < 3) (sync_queue w))"

text \<open>\<^verbatim>\<open>currentBatch.length >= this.batchSize\<close>, false when the size is \<^verbatim>\<open>NaN\<close>.\<close>

definition batch_full :: "int option \<Rightarrow> 'a list \<Rightarrow> bool" where
  "batch_full bsize currentBatch =
     (case bsize of None \<Rightarrow> False | Some n \<Rightarrow> int (length currentBatch) \<ge> n)"

fun createBatches_loop ::
  "int option \<Rightarrow> 'a list \<Rightarrow> 'a list list \<Rightarrow> 'a list \<Rightarrow> 'a list list" where
  "createBatches_loop bsize [] batches currentBatch =
     (if length currentBatch > 0 then batches @ [currentBatch] else batches)"
| "createBatches_loop bsize (item # items) batches currentBatch =
     (if batch_full bsize currentBatch
      then createBatches_loop bsize items (batches @ [currentBatch]) [item]
      else createBatches_loop bsize items batches (currentBatch @ [item]))"

definition createBatches :: "runtime \<Rightarrow> 'a list \<Rightarrow> 'a list list" where
  "createBatches rt items = createBatches_loop (batchSize rt) items [] []"

text \<open>\<^verbatim>\<open>UPDATE tasks SET sync_status = ? WHERE id = ?\<close>\<close>

definition set_sync_status :: "sync_status \<Rightarrow> string \<Rightarrow> world \<Rightarrow> world" where
  "set_sync_status s i w =
     w\<lparr>tasks := map (\<lambda>r. if t_id r = i then r\<lparr>t_sync_status := s\<rparr> else r) (tasks w)\<rparr>"

text \<open>\<^verbatim>\<open>SyncService.calculateChecksum\<close>, the method of the sending side.\<close>

definition SyncService_calculateChecksum :: "runtime \<Rightarrow> sync_queue_item list \<Rightarrow> string" where
  "SyncService_calculateChecksum rt items =
     (let dataString =
            join ''|'' (map (\<lambda>item. q_id item @ ''-'' @ q_operation item @ ''-'' @
                                       JSON_stringify rt (q_data item)) items)
      in hex_digest (sha256 rt dataString))"

definition processBatch ::
  "runtime \<Rightarrow> sync_queue_item list \<Rightarrow> world \<Rightarrow> (string + processed_item list) \<times> world" where
  "processBatch rt items w =
     (let w1 = fold (\<lambda>item. set_sync_status InProgress (q_task_id item)) items w;
          checksum = SyncService_calculateChecksum rt items;
          (client_timestamp, w2) = new_Date rt w1;
          reply = axios_post rt (tick w2)
                    \<lparr>r_items = items, r_client_timestamp = client_timestamp, r_checksum = checksum\<rparr>
      in (reply, w2\<lparr>tick := Suc (tick w2)\<rparr>))"

text \<open>\<^verbatim>\<open>serverData?.server_id\<close>, as the condition and as the value written.\<close>

definition server_id_of :: "task_data option \<Rightarrow> string option" where
  "server_id_of serverData = (case serverData of None \<Rightarrow> None | Some d \<Rightarrow> truthy_str (p_server_id d))"

definition updateSyncStatus ::
  "runtime \<Rightarrow> string \<Rightarrow> sync_status \<Rightarrow> task_data option \<Rightarrow> world \<Rightarrow> world" where
  "updateSyncStatus rt taskId status serverData w =
     (let (now, w1) = new_Date rt w;
          w2 = w1\<lparr>tasks := map (\<lambda>r.
                 if t_id r = taskId
                 then (case server_id_of serverData of
                         None \<Rightarrow> r\<lparr>t_sync_status := status, t_last_synced_at := Some now\<rparr>
                       | Some sid \<Rightarrow> r\<lparr>t_sync_status := status, t_last_synced_at := Some now,
                                       t_server_id := Some sid\<rparr>)
                 else r) (tasks w1)\<rparr>
      in if status = Synced
         then w2\<lparr>sync_queue := filter (\<lambda>q. q_task_id q \<noteq> taskId) (sync_queue w2)\<rparr>
         else w2)"

definition moveToDeadLetterQueue :: "runtime \<Rightarrow> sync_queue_item \<Rightarrow> string \<Rightarrow> world \<Rightarrow> world" where
  "moveToDeadLetterQueue rt item errorMessage w =
     (let (dlqId, w1) = uuidv4 rt w;
          (now, w2) = new_Date rt w1
      in w2\<lparr>dead_letter_queue := dead_letter_queue w2 @
            [\<lparr>d_id = dlqId, d_original_queue_id = q_id item, d_task_id = q_task_id item,
              d_operation = q_operation item, d_data = q_data item,
              d_error_message = errorMessage, d_retry_count = q_retry_count item,
              d_failed_at = now\<rparr>]\<rparr>)"

definition handleSyncError :: "runtime \<Rightarrow> sync_queue_item \<Rightarrow> string \<Rightarrow> world \<Rightarrow> world" where
  "handleSyncError rt item message w =
     (let retryCount = q_retry_count item + 1;
          maxRetries = 3
      in if retryCount \<ge> maxRetries
         then (let w1 = moveToDeadLetterQueue rt item message w;
                   w2 = set_sync_status Failed (q_task_id item) w1
               in w2\<lparr>sync_queue := filter (\<lambda>q. q_id q \<noteq> q_id item) (sync_queue w2)\<rparr>)
         else (let w1 = w\<lparr>sync_queue := map (\<lambda>q.
                        if q_id q = q_id item
                        then q\<lparr>q_retry_count := retryCount, q_error_message := Some message\<rparr>
                        else q) (sync_queue w)\<rparr>
               in set_sync_status Error (q_task_id item) w1))"

text \<open>
  The loop over the outcomes of one batch. \<^verbatim>\<open>batch.find(...)!\<close> is \<^verbatim>\<open>undefined\<close> when no
  item of the batch has the outcome's \<^verbatim>\<open>client_id\<close>; \<^verbatim>\<open>handleSyncError\<close> then throws on
  its first line, which ends the loop: the first component is the message thrown.
\<close>

fun sync_outcomes ::
  "runtime \<Rightarrow> sync_queue_item list \<Rightarrow> processed_item list \<Rightarrow> sync_result \<Rightarrow> world
     \<Rightarrow> string option \<times> sync_result \<times> world" where
  "sync_outcomes rt batch [] result w = (None, result, w)"
| "sync_outcomes rt batch (processedItem # rest) result w =
     (if o_status processedItem = StatusSuccess
      then (let w1 = updateSyncStatus rt (o_client_id processedItem) Synced
                       (o_resolved_data processedItem) w
            in sync_outcomes rt batch rest (result\<lparr>synced_items := synced_items result + 1\<rparr>) w1)
      else (case find (\<lambda>item. q_task_id item = o_client_id processedItem) batch of
              None \<Rightarrow> (Some (msg_undefined_read rt), result, w)
            | Some item \<Rightarrow>
                (let message = or_str (o_error processedItem) ''Unknown sync error'';
                     w1 = handleSyncError rt item message w;
                     (now, w2) = new_Date rt w1
                 in sync_outcomes rt batch rest
                      (result\<lparr>failed_items := failed_items result + 1,
                              errors := errors result @
                                [\<lparr>e_task_id = o_client_id processedItem, e_operation = ''sync'',
                                  e_error = message, e_timestamp = now\<rparr>]\<rparr>) w2)))"

text \<open>The \<^verbatim>\<open>catch\<close> of a batch: every item of the batch is failed with the error caught.\<close>

fun fail_batch ::
  "runtime \<Rightarrow> string \<Rightarrow> sync_queue_item list \<Rightarrow> sync_result \<Rightarrow> world \<Rightarrow> sync_result \<times> world" where
  "fail_batch rt message [] result w = (result, w)"
| "fail_batch rt message (item # rest) result w =
     (let w1 = handleSyncError rt item message w;
          (now, w2) = new_Date rt w1
      in fail_batch rt message rest
           (result\<lparr>failed_items := failed_items result + 1,
                   errors := errors result @
                     [\<lparr>e_task_id = q_task_id item, e_operation = q_operation item,
                       e_error = message, e_timestamp = now\<rparr>]\<rparr>) w2)"

fun sync_batches ::
  "runtime \<Rightarrow> sync_queue_item list list \<Rightarrow> sync_result \<Rightarrow> world \<Rightarrow> sync_result \<times> world" where
  "sync_batches rt [] result w = (result, w)"
| "sync_batches rt (batch # rest) result w =
     (case processBatch rt batch w of
        (Inl message, w1) \<Rightarrow>
          (let (result1, w2) = fail_batch rt message batch result w1
           in sync_batches rt rest result1 w2)
      | (Inr processed_items, w1) \<Rightarrow>
          (case sync_outcomes rt batch processed_items result w1 of
             (Some message, result1, w2) \<Rightarrow>
               (let (result2, w3) = fail_batch rt message batch result1 w2
                in sync_batches rt rest result2 w3)
           | (None, result1, w2) \<Rightarrow> sync_batches rt rest result1 w2))"

text \<open>
  One cycle. The outer \<^verbatim>\<open>catch\<close> of the source is the branch \<open>Inl\<close> of the probe; no
  other step of the cycle throws in this model.
\<close>

definition sync :: "runtime \<Rightarrow> world \<Rightarrow> sync_result \<times> world" where
  "sync rt w =
     (let result = \<lparr>success = True, synced_items = 0, failed_items = 0, errors = []\<rparr>
      in case checkConnectivity rt w of
           (Inl message, w1) \<Rightarrow>
             (let (now, w2) = new_Date rt w1
              in (result\<lparr>success := False,
                         errors := [\<lparr>e_task_id = [], e_operation = ''sync'',
                                     e_error = message, e_timestamp = now\<rparr>]\<rparr>, w2))
         | (Inr isOnline, w1) \<Rightarrow>
             if \<not> isOnline
             then (let (now, w2) = new_Date rt w1
                   in (result\<lparr>success := False,
                              errors := [\<lparr>e_task_id = [], e_operation = ''connectivity'',
                                          e_error = ''Server unreachable'', e_timestamp = now\<rparr>]\<rparr>, w2))
             else (let queueItems = getSyncQueueItems w1
                   in if length queueItems = 0 then (result, w1)
                      else (let batches = createBatches rt queueItems;
                                (result1, w2) = sync_batches rt batches result w1
                            in (result1\<lparr>success := (failed_items result1 = 0)\<rparr>, w2))))"

subsection \<open>Notions used in the statements\<close>

text \<open>The string both checksum functions hash.\<close>

definition dataString :: "runtime \<Rightarrow> sync_queue_item list \<Rightarrow> string" where
  "dataString rt items =
     join ''|'' (map (\<lambda>item. q_id item @ ''-'' @ q_operation item @ ''-'' @
                                JSON_stringify rt (q_data item)) items)"

text \<open>A response of the class 400.\<close>

fun is_400 :: "response \<Rightarrow> bool" where
  "is_400 (Status400 msg t) = True"
| "is_400 (Status200 processed) = False"

text \<open>The three tables of a state: everything but the count of environment reads.\<close>

definition store :: "world \<Rightarrow> task list \<times> sync_queue_item list \<times> dead_letter list" where
  "store w = (tasks w, sync_queue w, dead_letter_queue w)"

text \<open>The row that the \<^verbatim>\<open>UPDATE\<close> of \<^verbatim>\<open>updateTask\<close> writes in place of a row \<open>r\<close>.\<close>

definition updated_row :: "task \<Rightarrow> task_data \<Rightarrow> int \<Rightarrow> task \<Rightarrow> task" where
  "updated_row existing updates now r =
     r\<lparr>t_title := (case p_title updates of None \<Rightarrow> t_title existing | Some v \<Rightarrow> v),
       t_description := or_str (or_else (p_description updates) (Some (t_description existing))) [],
       t_completed := (case p_completed updates of None \<Rightarrow> t_completed existing | Some c \<Rightarrow> c),
       t_updated_at := now,
       t_sync_status := Pending,
       t_server_id := truthy_str (or_else (p_server_id updates) (t_server_id existing)),
       t_last_synced_at := t_last_synced_at existing\<rparr>"

subsection \<open>Concrete inputs\<close>

definition example_runtime :: runtime where
  "example_runtime =
     \<lparr>date_at = (\<lambda>n. 5000 + int n),
      uuid_at = (\<lambda>n. ''uuid-'' @ replicate n (CHR ''x'')),
      axios_get = (\<lambda>n. Inl ''connect ECONNREFUSED''),
      axios_post = (\<lambda>n request. Inl ''timeout of 30000ms exceeded''),
      sha256 = (\<lambda>s. of_nat (length s)),
      JSON_stringify = (\<lambda>d. or_str (p_title d) ''{}''),
      batchSize = Some 50,
      msg_not_a_function = ''toISOString is not a function'',
      msg_undefined_read = ''Cannot read properties of undefined''\<rparr>"

definition example_task :: task where
  "example_task =
     \<lparr>t_id = ''t1'', t_title = ''Buy milk'', t_description = [], t_completed = False,
      t_created_at = 100, t_updated_at = 1000, t_is_deleted = False,
      t_sync_status = Synced, t_server_id = None, t_last_synced_at = Some 1200\<rparr>"

text \<open>
  The snapshot the task service enqueues when a task that was synchronised at 1200 is
  updated at 2000, as the queue holds it and as a batch carries it.
\<close>

definition example_payload :: task_data where
  "example_payload =
     \<lparr>p_id = Some ''t1'', p_title = Some ''Buy oat milk'', p_description = Some [],
      p_completed = Some False, p_created_at = Some (IsoString 100),
      p_updated_at = Some (IsoString 2000), p_is_deleted = Some False,
      p_sync_status = Some Pending, p_server_id = None,
      p_last_synced_at = Some (IsoString 1200)\<rparr>"

definition example_entry :: sync_queue_item where
  "example_entry =
     \<lparr>q_id = ''q1'', q_task_id = ''t1'', q_operation = ''update'', q_data = example_payload,
      q_created_at = 2000, q_retry_count = 0, q_error_message = None\<rparr>"

definition example_world :: world where
  "example_world =
     \<lparr>tasks = [example_task], sync_queue = [example_entry], dead_letter_queue = [], tick = 0\<rparr>"

text \<open>The same runtime with a health endpoint that answers; the batch request still fails.\<close>

definition online_runtime :: runtime where
  "online_runtime = example_runtime\<lparr>axios_get := (\<lambda>n. Inr ())\<rparr>"

definition empty_world :: world where
  "empty_world = \<lparr>tasks = [], sync_queue = [], dead_letter_queue = [], tick = 0\<rparr>"

text \<open>A queue with two entries of the task \<^verbatim>\<open>t1\<close> and one of another task.\<close>

definition later_entry :: sync_queue_item where
  "later_entry = example_entry\<lparr>q_id := ''q2'', q_created_at := 3000\<rparr>"

definition other_entry :: sync_queue_item where
  "other_entry =
     \<lparr>q_id = ''q3'', q_task_id = ''t0'', q_operation = ''create'', q_data = example_payload,
      q_created_at = 2500, q_retry_count = 0, q_error_message = None\<rparr>"

definition exhausted_entry :: sync_queue_item where
  "exhausted_entry = other_entry\<lparr>q_id := ''q4'', q_retry_count := 3\<rparr>"

definition busy_world :: world where
  "busy_world =
     \<lparr>tasks = [example_task], sync_queue = [later_entry, exhausted_entry, example_entry, other_entry],
      dead_letter_queue = [], tick = 0\<rparr>"

definition success_outcome :: processed_item where
  "success_outcome =
     \<lparr>o_client_id = ''t1'', o_server_id = Some ''s1'', o_status = StatusSuccess,
      o_resolved_data = Some (example_payload\<lparr>p_server_id := Some ''s1''\<rparr>), o_error = None\<rparr>"

definition delete_entry :: sync_queue_item where
  "delete_entry = example_entry\<lparr>q_id := ''q5'', q_operation := ''delete''\<rparr>"

definition bad_body :: batch_body where
  "bad_body =
     \<lparr>b_items = ItemsArray [example_entry], b_client_timestamp = Some ''2024-01-01T00:00:00.000Z'',
      b_checksum = Some ''deadbeef''\<rparr>"

text \<open>The same update as a client would send it for a task never synchronised before.\<close>

definition plain_entry :: sync_queue_item where
  "plain_entry = example_entry\<lparr>q_data := example_payload\<lparr>p_last_synced_at := None\<rparr>\<rparr>"

text \<open>An update made at 500, before the server's version of 1000.\<close>

definition stale_entry :: sync_queue_item where
  "stale_entry = example_entry\<lparr>q_data := example_payload\<lparr>p_updated_at := Some (IsoString 500)\<rparr>\<rparr>"

text \<open>
  A server that answers the probe and rejects every item of a batch, each with the error
  outcome the receiving side builds for a failed item.
\<close>

definition rejecting_runtime :: runtime where
  "rejecting_runtime =
     example_runtime\<lparr>axios_get := (\<lambda>n. Inr ()),
       axios_post := (\<lambda>n request.
          Inr (map (\<lambda>item. error_outcome item ''rejected'') (r_items request)))\<rparr>"

text \<open>Two entries of the one task \<^verbatim>\<open>t1\<close>, both fresh; and the first of them after two failures.\<close>

definition shared_task_world :: world where
  "shared_task_world =
     \<lparr>tasks = [example_task], sync_queue = [example_entry, later_entry],
      dead_letter_queue = [], tick = 0\<rparr>"

definition third_failure_world :: world where
  "third_failure_world =
     \<lparr>tasks = [example_task],
      sync_queue = [example_entry\<lparr>q_retry_count := 2\<rparr>, later_entry],
      dead_letter_queue = [], tick = 0\<rparr>"

text \<open>A client whose task \<^verbatim>\<open>t1\<close> was never synchronised, and the create entry it sends.\<close>

definition create_entry :: sync_queue_item where
  "create_entry = plain_entry\<lparr>q_id := ''q6'', q_operation := ''create''\<rparr>"

definition unsynced_world :: world where
  "unsynced_world =
     \<lparr>tasks = [example_task\<lparr>t_sync_status := Pending, t_last_synced_at := None\<rparr>],
      sync_queue = [create_entry], dead_letter_queue = [], tick = 0\<rparr>"

definition tampered_payload :: task_data where
  "tampered_payload = example_payload\<lparr>p_title := Some ''Buy oats''\<rparr>"

section \<open>Properties\<close>

lemma tasks_addToSyncQueue: "tasks (addToSyncQueue rt i operation d w) = tasks w"
  by (simp add: addToSyncQueue_def uuidv4_def new_Date_def Let_def)

subsection \<open>Bounded retries and the dead-letter store\<close>

text \<open>
  A failure that leaves the incremented count below three rewrites the entry in place:
  the entry the next cycle fetches is the old one with the new count and message.
\<close>

lemma handleSyncError_retry:
  assumes "item \<in> set (sync_queue w)" and "q_retry_count item + 1 < 3"
  shows "item\<lparr>q_retry_count := q_retry_count item + 1, q_error_message := Some e\<rparr>
           \<in> set (sync_queue (handleSyncError rt item e w))"
  using assms
  by (auto simp: handleSyncError_def set_sync_status_def Let_def image_iff
      intro!: bexI[of _ item])

text \<open>A failure that takes the count to three is terminal, whatever the state.\<close>

lemma handleSyncError_terminal_queue:
  assumes "q_retry_count item + 1 \<ge> 3"
  shows "\<forall>q \<in> set (sync_queue (handleSyncError rt item e w)). q_id q \<noteq> q_id item"
  using assms
  by (simp add: handleSyncError_def set_sync_status_def Let_def moveToDeadLetterQueue_def
      uuidv4_def new_Date_def)

lemma handleSyncError_terminal_dead_letter:
  assumes "q_retry_count item + 1 \<ge> 3"
  shows "\<exists>d \<in> set (dead_letter_queue (handleSyncError rt item e w)).
           d_original_queue_id d = q_id item \<and> d_task_id d = q_task_id item \<and>
           d_error_message d = e"
  using assms
  by (simp add: handleSyncError_def set_sync_status_def Let_def moveToDeadLetterQueue_def
      uuidv4_def new_Date_def)

lemma handleSyncError_terminal_task:
  assumes "q_retry_count item + 1 \<ge> 3"
  shows "\<forall>t \<in> set (tasks (handleSyncError rt item e w)).
           t_id t = q_task_id item \<longrightarrow> t_sync_status t = Failed"
  using assms
  by (auto simp add: handleSyncError_def set_sync_status_def Let_def
      moveToDeadLetterQueue_def uuidv4_def new_Date_def)

text \<open>
  What \<^verbatim>\<open>handleSyncError\<close> does when it is called on the entry itself. An entry of the queue
  with retry count 0 is handled three times in a row, with the messages \<open>ma\<close>, \<open>mb\<close>,
  \<open>mc\<close>; each time \<^verbatim>\<open>handleSyncError\<close> receives the entry as the queue then holds it. The first two failures leave the entry in the queue with the
  count 1, then 2. After the third, no row of the queue has the entry's id, the
  dead-letter table has a row that refers to the entry's id and its task and carries the
  last message \<open>mc\<close>, and every task row of the owning task has the status \<^verbatim>\<open>failed\<close>.
\<close>

theorem three_failures_dead_letter:
  assumes "item \<in> set (sync_queue w)" and "q_retry_count item = 0"
  shows "(let item1 = item\<lparr>q_retry_count := 1, q_error_message := Some ma\<rparr>;
              item2 = item\<lparr>q_retry_count := 2, q_error_message := Some mb\<rparr>;
              w1 = handleSyncError rt item ma w;
              w2 = handleSyncError rt item1 mb w1;
              w3 = handleSyncError rt item2 mc w2
          in item1 \<in> set (sync_queue w1) \<and> item2 \<in> set (sync_queue w2) \<and>
             (\<forall>q \<in> set (sync_queue w3). q_id q \<noteq> q_id item) \<and>
             (\<exists>d \<in> set (dead_letter_queue w3).
                d_original_queue_id d = q_id item \<and> d_task_id d = q_task_id item \<and>
                d_error_message d = mc) \<and>
             (\<forall>t \<in> set (tasks w3). t_id t = q_task_id item \<longrightarrow> t_sync_status t = Failed))"
proof -
  define item1 where "item1 = item\<lparr>q_retry_count := 1, q_error_message := Some ma\<rparr>"
  define item2 where "item2 = item\<lparr>q_retry_count := 2, q_error_message := Some mb\<rparr>"
  define w1 where "w1 = handleSyncError rt item ma w"
  define w2 where "w2 = handleSyncError rt item1 mb w1"
  define w3 where "w3 = handleSyncError rt item2 mc w2"
  have first: "item1 \<in> set (sync_queue w1)"
    using handleSyncError_retry[of item w ma rt] assms by (simp add: item1_def w1_def)
  have second: "item2 \<in> set (sync_queue w2)"
    using handleSyncError_retry[of item1 w1 mb rt] first
    by (simp add: item1_def item2_def w2_def numeral_2_eq_2)
  have last: "q_retry_count item2 + 1 \<ge> 3"
    by (simp add: item2_def)
  have gone: "\<forall>q \<in> set (sync_queue w3). q_id q \<noteq> q_id item"
    using handleSyncError_terminal_queue[OF last, of rt mc w2] by (simp add: w3_def item2_def)
  have dead: "\<exists>d \<in> set (dead_letter_queue w3).
      d_original_queue_id d = q_id item \<and> d_task_id d = q_task_id item \<and> d_error_message d = mc"
    using handleSyncError_terminal_dead_letter[OF last, of rt mc w2]
    by (auto simp add: w3_def item2_def)
  have failed: "\<forall>t \<in> set (tasks w3). t_id t = q_task_id item \<longrightarrow> t_sync_status t = Failed"
    using handleSyncError_terminal_task[OF last, of rt mc w2] by (simp add: w3_def item2_def)
  show ?thesis
    using first second gone dead failed
    unfolding Let_def item1_def item2_def w1_def w2_def w3_def by blast
qed

theorem three_failures_dead_letter_witness:
  "example_entry \<in> set (sync_queue example_world) \<and> q_retry_count example_entry = 0 \<and>
   (let w3 = handleSyncError example_runtime
               (example_entry\<lparr>q_retry_count := 2, q_error_message := Some ''second''\<rparr>) ''third''
               (handleSyncError example_runtime
                  (example_entry\<lparr>q_retry_count := 1, q_error_message := Some ''first''\<rparr>) ''second''
                  (handleSyncError example_runtime example_entry ''first'' example_world))
    in sync_queue w3 = [] \<and>
       map d_original_queue_id (dead_letter_queue w3) = [''q1''] \<and>
       map d_error_message (dead_letter_queue w3) = [''third''] \<and>
       map t_sync_status (tasks w3) = [Failed])"
  using three_failures_dead_letter[where item = example_entry and w = example_world
      and rt = example_runtime and ma = "''first''" and mb = "''second''" and mc = "''third''"]
  by (simp add: example_world_def example_entry_def example_task_def example_runtime_def
      handleSyncError_def set_sync_status_def moveToDeadLetterQueue_def uuidv4_def
      new_Date_def Let_def)

text \<open>
  The same through \<^verbatim>\<open>sync\<close>: three cycles against a server that answers the probe and
  fails the batch take the entry of the example from the queue to the dead-letter table.
\<close>

lemma three_cycles_example:
  "(let (r1, w1) = sync online_runtime example_world;
        (r2, w2) = sync online_runtime w1;
        (r3, w3) = sync online_runtime w2
    in map q_retry_count (sync_queue w1) = [1] \<and> map q_retry_count (sync_queue w2) = [2] \<and>
       sync_queue w3 = [] \<and>
       map d_original_queue_id (dead_letter_queue w3) = [''q1''] \<and>
       map t_sync_status (tasks w3) = [Failed] \<and> failed_items r3 = 1 \<and> success r3 = False)"
  by (simp add: sync_def checkConnectivity_def getSyncQueueItems_def
      order_by_task_id_created_at_def createBatches_def batch_full_def processBatch_def
      set_sync_status_def handleSyncError_def moveToDeadLetterQueue_def uuidv4_def new_Date_def
      online_runtime_def example_runtime_def example_world_def example_entry_def
      example_task_def Let_def)

text \<open>
  In the loop over the outcomes, an error outcome is charged to the first item of the
  batch that has the outcome's \<^verbatim>\<open>client_id\<close> as its task (\<^verbatim>\<open>batch.find\<close> compares
  \<^verbatim>\<open>task_id\<close>). Any other entry of the queue, the one the outcome answers included, is left
  as it was.
\<close>

lemma error_outcome_charged_to_first_of_task:
  assumes "o_status p = StatusError"
    and "find (\<lambda>item. q_task_id item = o_client_id p) batch = Some first"
    and "entry \<in> set (sync_queue w)" and "q_id entry \<noteq> q_id first"
  shows "(let (thrown, result', w') = sync_outcomes rt batch [p] result w
          in thrown = None \<and> failed_items result' = failed_items result + 1 \<and>
             entry \<in> set (sync_queue w'))"
proof -
  have "entry \<in> set (sync_queue (handleSyncError rt first m w))" for m
    using assms(3,4)
    by (auto simp: handleSyncError_def set_sync_status_def moveToDeadLetterQueue_def uuidv4_def
        new_Date_def Let_def image_iff intro!: bexI[of _ entry])
  then show ?thesis
    using assms(1,2) by (simp add: new_Date_def Let_def)
qed

text \<open>
  C1 does not hold of the code. Two fresh entries \<^verbatim>\<open>q1\<close> and \<^verbatim>\<open>q2\<close> of one task are sent in
  three consecutive cycles, and the server rejects every item each time. Both failures of
  a cycle are charged to \<^verbatim>\<open>q1\<close>: after the third cycle \<^verbatim>\<open>q1\<close> is dead-lettered twice, while
  \<^verbatim>\<open>q2\<close>, rejected three times, is still in the queue with retry count 0 and no dead-letter
  row refers to it. Second, when a whole batch fails with \<^verbatim>\<open>q1\<close> at its third failure and
  \<^verbatim>\<open>q2\<close> at its first, \<^verbatim>\<open>q1\<close> is dead-lettered but the cycle ends with the task's status
  \<^verbatim>\<open>error\<close>, not \<^verbatim>\<open>failed\<close>: the handling of \<^verbatim>\<open>q2\<close> overwrites it.
\<close>

theorem rejected_entry_is_never_retired:
  "(let (r1, w1) = sync rejecting_runtime shared_task_world;
        (r2, w2) = sync rejecting_runtime w1;
        (r3, w3) = sync rejecting_runtime w2
    in failed_items r1 = 2 \<and> failed_items r2 = 2 \<and> failed_items r3 = 2 \<and>
       sync_queue w3 = [later_entry] \<and> q_retry_count later_entry = 0 \<and>
       map d_original_queue_id (dead_letter_queue w3) = [''q1'', ''q1'']) \<and>
   (let (r, w) = sync online_runtime third_failure_world
    in map d_original_queue_id (dead_letter_queue w) = [''q1''] \<and>
       map q_id (sync_queue w) = [''q2''] \<and> map q_retry_count (sync_queue w) = [1] \<and>
       map t_sync_status (tasks w) = [Error])"
  by (simp add: sync_def checkConnectivity_def getSyncQueueItems_def
      order_by_task_id_created_at_def queue_le_def createBatches_def batch_full_def
      processBatch_def set_sync_status_def handleSyncError_def moveToDeadLetterQueue_def
      uuidv4_def new_Date_def error_outcome_def or_str_def rejecting_runtime_def
      online_runtime_def example_runtime_def shared_task_world_def third_failure_world_def
      example_entry_def later_entry_def example_task_def Let_def)

subsection \<open>An unreachable remote\<close>

text \<open>
  C3. The probe never throws: it always returns a boolean, and a rejected request of any
  kind makes it \<^verbatim>\<open>false\<close>. When the probe reports the remote unreachable, \<^verbatim>\<open>sync\<close> returns
  \<^verbatim>\<open>success = false\<close>, \<^verbatim>\<open>synced_items = 0\<close> and exactly one error, the connectivity error;
  the queue is the queue it was, row for row, and so are the other two tables.
\<close>

theorem sync_unreachable:
  "(\<exists>online. fst (checkConnectivity rt w) = Inr online) \<and>
   (\<forall>msg. axios_get rt (tick w) = Inl msg \<longrightarrow> fst (checkConnectivity rt w) = Inr False) \<and>
   (fst (checkConnectivity rt w) = Inr False \<longrightarrow>
      (let (result, w') = sync rt w
       in success result = False \<and> synced_items result = 0 \<and>
          map (\<lambda>e. (e_task_id e, e_operation e, e_error e)) (errors result) =
            [([], ''connectivity'', ''Server unreachable'')] \<and>
          sync_queue w' = sync_queue w \<and> store w' = store w))"
proof (intro conjI allI impI)
  show "\<exists>online. fst (checkConnectivity rt w) = Inr online"
    by (auto simp: checkConnectivity_def Let_def split: sum.splits)
next
  fix msg assume "axios_get rt (tick w) = Inl msg"
  then show "fst (checkConnectivity rt w) = Inr False"
    by (simp add: checkConnectivity_def Let_def)
next
  assume "fst (checkConnectivity rt w) = Inr False"
  then show "(let (result, w') = sync rt w
       in success result = False \<and> synced_items result = 0 \<and>
          map (\<lambda>e. (e_task_id e, e_operation e, e_error e)) (errors result) =
            [([], ''connectivity'', ''Server unreachable'')] \<and>
          sync_queue w' = sync_queue w \<and> store w' = store w)"
    by (auto simp add: sync_def checkConnectivity_def new_Date_def Let_def store_def
        split: sum.splits)
qed

theorem sync_unreachable_witness:
  "fst (checkConnectivity example_runtime example_world) = Inr False \<and>
   fst (sync example_runtime example_world) =
     \<lparr>success = False, synced_items = 0, failed_items = 0,
      errors = [\<lparr>e_task_id = [], e_operation = ''connectivity'',
                 e_error = ''Server unreachable'', e_timestamp = 5001\<rparr>]\<rparr> \<and>
   sync_queue (snd (sync example_runtime example_world)) = [example_entry]"
  using sync_unreachable[of example_runtime example_world]
  by (simp add: sync_def checkConnectivity_def new_Date_def example_runtime_def
      example_world_def Let_def)

subsection \<open>A success outcome\<close>

text \<open>
  The loop over the outcomes meets an outcome with status \<^verbatim>\<open>success\<close>. It does not
  throw and counts one more synced item. The queue afterwards is the queue before without
  every row whose \<^verbatim>\<open>task_id\<close> is the outcome's \<^verbatim>\<open>client_id\<close>: all entries of that task go,
  whichever of them the outcome answers. Every task row with that id has the status
  \<^verbatim>\<open>synced\<close> and \<^verbatim>\<open>last_synced_at\<close> set to the time of the call. The column \<^verbatim>\<open>server_id\<close> is
  written when the outcome carries one in its \<^verbatim>\<open>resolved_data\<close> (a non-empty
  \<^verbatim>\<open>resolved_data.server_id\<close>, which is what \<^verbatim>\<open>updateSyncStatus\<close> receives and tests), and is
  left as it was otherwise.
\<close>

theorem success_outcome_clears_task_entries:
  assumes "o_status p = StatusSuccess"
  shows "(let (thrown, result', w') = sync_outcomes rt batch [p] result w
          in thrown = None \<and> synced_items result' = synced_items result + 1 \<and>
             failed_items result' = failed_items result \<and>
             sync_queue w' = filter (\<lambda>q. q_task_id q \<noteq> o_client_id p) (sync_queue w) \<and>
             (\<forall>q \<in> set (sync_queue w'). q_task_id q \<noteq> o_client_id p) \<and>
             (\<forall>t \<in> set (tasks w'). t_id t = o_client_id p \<longrightarrow>
                t_sync_status t = Synced \<and>
                t_last_synced_at t = Some (date_at rt (tick w)) \<and>
                (\<forall>sid. server_id_of (o_resolved_data p) = Some sid \<longrightarrow> t_server_id t = Some sid)) \<and>
             (server_id_of (o_resolved_data p) = None \<longrightarrow>
                map t_server_id (tasks w') = map t_server_id (tasks w)) \<and>
             map t_id (tasks w') = map t_id (tasks w) \<and>
             dead_letter_queue w' = dead_letter_queue w)"
  using assms
  by (auto simp add: updateSyncStatus_def new_Date_def Let_def split: option.splits)

theorem success_outcome_clears_task_entries_witness:
  "o_status success_outcome = StatusSuccess \<and>
   (let (thrown, result', w') =
          sync_outcomes example_runtime [example_entry] [success_outcome]
            \<lparr>success = True, synced_items = 0, failed_items = 0, errors = []\<rparr> busy_world
    in thrown = None \<and> synced_items result' = 1 \<and>
       sync_queue w' = [exhausted_entry, other_entry] \<and>
       map t_sync_status (tasks w') = [Synced] \<and>
       map t_last_synced_at (tasks w') = [Some 5000] \<and>
       map t_server_id (tasks w') = [Some ''s1''])"
  using success_outcome_clears_task_entries[where p = success_outcome and rt = example_runtime
      and batch = "[example_entry]" and w = busy_world
      and result = "\<lparr>success = True, synced_items = 0, failed_items = 0, errors = []\<rparr>"]
  by (simp add: success_outcome_def busy_world_def example_entry_def later_entry_def
      other_entry_def exhausted_entry_def example_task_def example_payload_def
      example_runtime_def updateSyncStatus_def server_id_of_def truthy_str_def new_Date_def
      Let_def)

text \<open>
  C4 does not hold of the code in its last part. The outcome is a success and carries a
  server identity in its own field \<^verbatim>\<open>server_id\<close>, but its \<^verbatim>\<open>resolved_data\<close> has no
  \<^verbatim>\<open>server_id\<close>: this is the outcome the receiving side of this repository builds for a
  create. The client marks the task \<^verbatim>\<open>synced\<close> and leaves the column \<^verbatim>\<open>server_id\<close> as it was:
  \<^verbatim>\<open>updateSyncStatus\<close> is handed \<^verbatim>\<open>resolved_data\<close> only, and the outcome's own field is never
  read.
\<close>

theorem outcome_server_id_is_not_recorded:
  assumes "o_status p = StatusSuccess" and "o_server_id p = Some sid"
    and "server_id_of (o_resolved_data p) = None"
  shows "(let (thrown, result', w') = sync_outcomes rt batch [p] result w
          in thrown = None \<and> synced_items result' = synced_items result + 1 \<and>
             map t_server_id (tasks w') = map t_server_id (tasks w) \<and>
             (\<forall>t \<in> set (tasks w'). t_id t = o_client_id p \<longrightarrow> t_sync_status t = Synced))"
  using assms
  by (auto simp add: updateSyncStatus_def new_Date_def Let_def)

theorem outcome_server_id_is_not_recorded_witness:
  "(let (p, server) = handleBatchCreate example_runtime create_entry empty_world;
        (thrown, result', w') =
          sync_outcomes example_runtime [create_entry] [p]
            \<lparr>success = True, synced_items = 0, failed_items = 0, errors = []\<rparr> unsynced_world
    in o_status p = StatusSuccess \<and> o_client_id p = ''t1'' \<and> o_server_id p = Some ''uuid-'' \<and>
       server_id_of (o_resolved_data p) = None \<and>
       map t_id (tasks w') = [''t1''] \<and> map t_sync_status (tasks w') = [Synced] \<and>
       map t_server_id (tasks w') = [None] \<and> sync_queue w' = [])"
proof -
  obtain p server
    where created: "handleBatchCreate example_runtime create_entry empty_world = (p, server)"
    by (cases "handleBatchCreate example_runtime create_entry empty_world")
  then have p: "p = \<lparr>o_client_id = ''t1'', o_server_id = Some ''uuid-'', o_status = StatusSuccess,
      o_resolved_data = Some (task_obj
        \<lparr>t_id = ''uuid-'', t_title = ''Buy oat milk'', t_description = [], t_completed = False,
         t_created_at = 5001, t_updated_at = 5002, t_is_deleted = False,
         t_sync_status = Pending, t_server_id = None, t_last_synced_at = None\<rparr>),
      o_error = None\<rparr>"
    by (auto simp add: handleBatchCreate_def createTask_def uuidv4_def new_Date_def or_str_def
        truthy_str_def getTime_def create_entry_def plain_entry_def example_entry_def
        example_payload_def example_runtime_def empty_world_def Let_def)
  have ok: "o_status p = StatusSuccess" and top: "o_server_id p = Some ''uuid-''"
    and inner: "server_id_of (o_resolved_data p) = None"
    by (simp_all add: p server_id_of_def task_obj_def truthy_str_def)
  show ?thesis
    using ok top inner
      outcome_server_id_is_not_recorded[OF ok top inner, of example_runtime "[create_entry]"
        "\<lparr>success = True, synced_items = 0, failed_items = 0, errors = []\<rparr>" unsynced_world]
    by (simp add: created)
      (simp add: p updateSyncStatus_def server_id_of_def task_obj_def truthy_str_def
        new_Date_def unsynced_world_def create_entry_def plain_entry_def example_entry_def
        example_task_def example_runtime_def Let_def)
qed

subsection \<open>The checksum of a batch\<close>

lemma calculateChecksum_dataString:
  "calculateChecksum rt items = hex_digest (sha256 rt (dataString rt items))"
  by (simp add: calculateChecksum_def dataString_def Let_def)

lemma length_hex_digest: "length (hex_digest h) = 64"
  by (simp add: hex_digest_def)

text \<open>A segment in the middle of a joined string stands between two fixed parts.\<close>

lemma join_middle:
  "join sep (pre @ [s] @ post) =
     concat (map (\<lambda>p. p @ sep) pre) @ s @ concat (map (\<lambda>p. sep @ p) post)"
proof (induction pre)
  case Nil
  show ?case by (induction post arbitrary: s) (simp_all)
next
  case (Cons a pre)
  then show ?case by (cases "pre @ [s] @ post") simp_all
qed

lemma dataString_tamper:
  assumes "JSON_stringify rt d \<noteq> JSON_stringify rt (q_data x)"
  shows "dataString rt (pre @ [x\<lparr>q_data := d\<rparr>] @ post) \<noteq> dataString rt (pre @ [x] @ post)"
proof -
  define seg :: "sync_queue_item \<Rightarrow> string" where "seg item =
      q_id item @ ''-'' @ q_operation item @ ''-'' @ JSON_stringify rt (q_data item)" for item
  have shape: "dataString rt (pre @ [y] @ post) =
      concat (map (\<lambda>p. p @ ''|'') (map seg pre)) @ seg y @
      concat (map (\<lambda>p. ''|'' @ p) (map seg post))" for y
    unfolding dataString_def seg_def[symmetric, abs_def]
    by (simp only: map_append list.map join_middle)
  have "seg (x\<lparr>q_data := d\<rparr>) \<noteq> seg x"
    using assms by (simp add: seg_def)
  then show ?thesis
    by (simp only: shape append_same_eq same_append_eq not_False_eq_True)
qed

text \<open>The hexadecimal rendering loses nothing: it determines the digest.\<close>

lemma hex_char_inj:
  assumes "a < 16" and "b < 16" and "hex_char a = hex_char b"
  shows "a = b"
proof -
  have "distinct ''0123456789abcdef''" by simp
  then show ?thesis
    using assms unfolding hex_char_def by (simp add: nth_eq_iff_index_eq)
qed

lemma nibble_less: "nibble h i < 16"
proof -
  have "take_bit 4 (unat (drop_bit (4 * i) h)) < 2 ^ 4"
    by (rule take_bit_nat_less_exp)
  then show ?thesis by (simp add: nibble_def unsigned_take_bit_eq)
qed

lemma hex_digest_inj:
  assumes "hex_digest h = hex_digest h'"
  shows "h = h'"
proof (rule bit_word_eqI)
  fix n assume n: "n < LENGTH(256)"
  define j where "j = n div 4"
  have j: "j < 64" using n by (simp add: j_def)
  then have "63 - j \<in> set [0..<64]" by simp
  moreover have "\<forall>i \<in> set [0..<64]. hex_char (nibble h (63 - i)) = hex_char (nibble h' (63 - i))"
    using assms unfolding hex_digest_def by (simp only: map_eq_conv)
  ultimately have "hex_char (nibble h (63 - (63 - j))) = hex_char (nibble h' (63 - (63 - j)))"
    by blast
  moreover have "63 - (63 - j) = j" using j by simp
  ultimately have "nibble h j = nibble h' j"
    using hex_char_inj[OF nibble_less nibble_less] by simp
  then have eq: "take_bit 4 (drop_bit (4 * j) h) = take_bit 4 (drop_bit (4 * j) h')"
    unfolding nibble_def by (rule word_unat_eq_iff[THEN iffD2])
  have "bit h n = bit (take_bit 4 (drop_bit (4 * j) h)) (n mod 4)"
    by (simp add: bit_take_bit_iff bit_drop_bit_eq j_def)
  also have "\<dots> = bit (take_bit 4 (drop_bit (4 * j) h')) (n mod 4)"
    by (simp only: eq)
  also have "\<dots> = bit h' n"
    by (simp add: bit_take_bit_iff bit_drop_bit_eq j_def)
  finally show "bit h n = bit h' n" .
qed

text \<open>
  C5. The checksum of a list of items is the SHA-256 digest, as 64 hexadecimal digits, of
  the segments \<^verbatim>\<open>{id}-{operation}-{JSON of data}\<close> of the items in order, joined with a bar.
  The function of the sending side and the function of the receiving side give the same
  checksum for the same list. Altering the data of one item of a list changes the
  checksum of the list. SHA-256 is taken as the collision-resistant hash the
  specification names, and \<^verbatim>\<open>JSON.stringify\<close> as a serialiser that tells the two payloads
  apart: neither maps the two values compared to the same result.
\<close>

theorem checksum_fingerprint:
  "calculateChecksum rt items =
     hex_digest (sha256 rt (join ''|'' (map (\<lambda>item. q_id item @ ''-'' @ q_operation item @ ''-'' @
        JSON_stringify rt (q_data item)) items))) \<and>
   length (calculateChecksum rt items) = 64 \<and>
   SyncService_calculateChecksum rt items = calculateChecksum rt items \<and>
   (d \<noteq> q_data x \<and>
    inj_on (JSON_stringify rt) {d, q_data x} \<and>
    inj_on (sha256 rt)
      {dataString rt (pre @ [x\<lparr>q_data := d\<rparr>] @ post), dataString rt (pre @ [x] @ post)} \<longrightarrow>
    calculateChecksum rt (pre @ [x\<lparr>q_data := d\<rparr>] @ post) \<noteq>
      calculateChecksum rt (pre @ [x] @ post))"
proof (intro conjI impI)
  show "calculateChecksum rt items =
     hex_digest (sha256 rt (join ''|'' (map (\<lambda>item. q_id item @ ''-'' @ q_operation item @ ''-'' @
        JSON_stringify rt (q_data item)) items)))"
    by (simp add: calculateChecksum_def Let_def)
  show "length (calculateChecksum rt items) = 64"
    by (simp only: calculateChecksum_dataString length_hex_digest)
  show "SyncService_calculateChecksum rt items = calculateChecksum rt items"
    by (simp add: SyncService_calculateChecksum_def calculateChecksum_def)
next
  assume altered: "d \<noteq> q_data x \<and>
    inj_on (JSON_stringify rt) {d, q_data x} \<and>
    inj_on (sha256 rt)
      {dataString rt (pre @ [x\<lparr>q_data := d\<rparr>] @ post), dataString rt (pre @ [x] @ post)}"
  then have "JSON_stringify rt d \<noteq> JSON_stringify rt (q_data x)"
    by (auto simp: inj_on_def)
  then have "dataString rt (pre @ [x\<lparr>q_data := d\<rparr>] @ post) \<noteq> dataString rt (pre @ [x] @ post)"
    by (rule dataString_tamper)
  then have "sha256 rt (dataString rt (pre @ [x\<lparr>q_data := d\<rparr>] @ post)) \<noteq>
      sha256 rt (dataString rt (pre @ [x] @ post))"
    using altered by (auto simp: inj_on_def)
  then show "calculateChecksum rt (pre @ [x\<lparr>q_data := d\<rparr>] @ post) \<noteq>
      calculateChecksum rt (pre @ [x] @ post)"
    unfolding calculateChecksum_dataString using hex_digest_inj by blast
qed

theorem checksum_fingerprint_witness:
  "tampered_payload \<noteq> q_data example_entry \<and>
   inj_on (JSON_stringify example_runtime) {tampered_payload, q_data example_entry} \<and>
   inj_on (sha256 example_runtime)
     {dataString example_runtime
        ([other_entry] @ [example_entry\<lparr>q_data := tampered_payload\<rparr>] @ [later_entry]),
      dataString example_runtime ([other_entry] @ [example_entry] @ [later_entry])} \<and>
   length (calculateChecksum example_runtime [other_entry, example_entry, later_entry]) = 64 \<and>
   calculateChecksum example_runtime
       ([other_entry] @ [example_entry\<lparr>q_data := tampered_payload\<rparr>] @ [later_entry]) \<noteq>
     calculateChecksum example_runtime ([other_entry] @ [example_entry] @ [later_entry])"
proof -
  have altered: "tampered_payload \<noteq> q_data example_entry"
    by (simp add: tampered_payload_def example_entry_def example_payload_def)
  have json_tells:
    "inj_on (JSON_stringify example_runtime) {tampered_payload, q_data example_entry}"
    by (simp add: example_runtime_def example_entry_def tampered_payload_def
        example_payload_def or_str_def)
  have no_collision: "inj_on (sha256 example_runtime)
     {dataString example_runtime
        ([other_entry] @ [example_entry\<lparr>q_data := tampered_payload\<rparr>] @ [later_entry]),
      dataString example_runtime ([other_entry] @ [example_entry] @ [later_entry])}"
    by (simp add: example_runtime_def example_entry_def other_entry_def later_entry_def
        tampered_payload_def example_payload_def or_str_def dataString_def)
  note fingerprint = checksum_fingerprint[where rt = example_runtime
      and items = "[other_entry, example_entry, later_entry]" and d = tampered_payload
      and x = example_entry and pre = "[other_entry]" and post = "[later_entry]"]
  show ?thesis
    using altered json_tells no_collision fingerprint by blast
qed

subsection \<open>Validation of a batch request\<close>

lemma store_tick: "store (w\<lparr>tick := n\<rparr>) = store w"
  by (simp add: store_def)

text \<open>
  C6. A request whose \<^verbatim>\<open>items\<close> is missing, is not an array or is the empty array, or whose
  \<^verbatim>\<open>client_timestamp\<close> is missing, is answered with a response of the class 400 and the
  three tables are left as they were: no item is processed. The same holds when a checksum
  is given and differs from the checksum the server computes over the items; when nothing
  else is wrong with the request, the response is the integrity error. (A field counts as
  given when it is truthy: the handler tests \<^verbatim>\<open>!client_timestamp\<close> and \<^verbatim>\<open>if (checksum)\<close>.)
\<close>

theorem batch_validation:
  "((b_items body = ItemsMissing \<or> b_items body = ItemsNotArray \<or> b_items body = ItemsArray [] \<or>
     truthy_str (b_client_timestamp body) = None) \<longrightarrow>
      is_400 (fst (post_batch rt body w)) \<and> store (snd (post_batch rt body w)) = store w) \<and>
   (\<forall>items c. b_items body = ItemsArray items \<and> truthy_str (b_checksum body) = Some c \<and>
        calculateChecksum rt items \<noteq> c \<longrightarrow>
      is_400 (fst (post_batch rt body w)) \<and> store (snd (post_batch rt body w)) = store w) \<and>
   (\<forall>items c. b_items body = ItemsArray items \<and> items \<noteq> [] \<and>
        truthy_str (b_client_timestamp body) \<noteq> None \<and>
        truthy_str (b_checksum body) = Some c \<and> calculateChecksum rt items \<noteq> c \<longrightarrow>
      post_batch rt body w =
        (Status400 ''Batch integrity check failed - checksum mismatch'' (date_at rt (tick w)),
         w\<lparr>tick := Suc (tick w)\<rparr>))"
  by (auto simp add: post_batch_def bad_request_def new_Date_def store_def Let_def
      split: body_items.splits option.splits)

theorem batch_validation_witness:
  "calculateChecksum example_runtime [example_entry] \<noteq> ''deadbeef'' \<and>
   post_batch example_runtime bad_body example_world =
     (Status400 ''Batch integrity check failed - checksum mismatch'' 5000,
      example_world\<lparr>tick := 1\<rparr>) \<and>
   is_400 (fst (post_batch example_runtime (bad_body\<lparr>b_items := ItemsMissing\<rparr>) example_world)) \<and>
   store (snd (post_batch example_runtime (bad_body\<lparr>b_client_timestamp := None\<rparr>) example_world)) =
     store example_world"
proof -
  have "length (calculateChecksum example_runtime [example_entry]) = 64"
    by (simp add: calculateChecksum_def Let_def length_hex_digest)
  then have mismatch: "calculateChecksum example_runtime [example_entry] \<noteq> ''deadbeef''"
    by auto
  show ?thesis
    using mismatch
      batch_validation[of bad_body example_runtime example_world]
      batch_validation[of "bad_body\<lparr>b_items := ItemsMissing\<rparr>" example_runtime example_world]
      batch_validation[of "bad_body\<lparr>b_client_timestamp := None\<rparr>" example_runtime example_world]
    by (simp add: bad_body_def truthy_str_def example_world_def example_runtime_def)
qed

subsection \<open>An update on the receiving side\<close>

lemma getTask_Some:
  assumes "getTask i w = Some existing"
  shows "\<exists>row \<in> set (tasks w). t_id row = i \<and> \<not> t_is_deleted row \<and> existing = mapRowToTask row"
  using assms by (auto simp: getTask_def find_Some_iff split: option.splits)

text \<open>
  The snapshot that the task service enqueues when a task synchronised before is updated
  carries \<^verbatim>\<open>last_synced_at\<close>, and carries it as a string: this is the payload of the update
  item a client sends.
\<close>

lemma update_snapshot_carries_last_synced_at:
  assumes "getTask i w = Some existing" and "t_last_synced_at existing = Some t"
    and "p_last_synced_at updates = None"
  shows "\<exists>q \<in> set (sync_queue (snd (updateTask rt i updates w))).
           q_task_id q = i \<and> q_operation q = ''update'' \<and>
           p_last_synced_at (q_data q) = Some (IsoString t)"
  using assms
  by (simp add: updateTask_def spread_def or_else_def task_obj_def new_Date_def uuidv4_def
      addToSyncQueue_def json_def json_date_def Let_def)

text \<open>
  C2 does not hold of the code. The entity exists and the server's timestamp is not
  strictly greater than the payload's, so the client's update is to be applied; but the
  payload carries \<^verbatim>\<open>last_synced_at\<close>, which in a decoded body is a string. \<^verbatim>\<open>updateTask\<close> then
  throws while it builds the arguments of its \<^verbatim>\<open>UPDATE\<close>, and \<^verbatim>\<open>handleBatchUpdate\<close> answers
  with status \<^verbatim>\<open>error\<close>: nothing is written and no updated record is returned.
\<close>

theorem update_carrying_last_synced_at_is_rejected:
  assumes "getTask (q_task_id item) w = Some existing"
    and "\<not> js_gt (t_updated_at existing) (getTime (p_updated_at (q_data item)))"
    and "p_last_synced_at (q_data item) = Some (IsoString s)"
  shows "handleBatchUpdate rt item w =
           (\<lparr>o_client_id = q_task_id item, o_server_id = None, o_status = StatusError,
             o_resolved_data = None, o_error = Some (msg_not_a_function rt)\<rparr>,
            w\<lparr>tick := Suc (tick w)\<rparr>)"
  using assms
  by (simp add: handleBatchUpdate_def updateTask_def spread_def or_else_def new_Date_def
      error_outcome_def Let_def)

theorem update_carrying_last_synced_at_is_rejected_witness:
  "getTask (q_task_id example_entry) example_world = Some example_task \<and>
   \<not> js_gt (t_updated_at example_task) (getTime (p_updated_at (q_data example_entry))) \<and>
   p_last_synced_at (q_data example_entry) = Some (IsoString 1200) \<and>
   handleBatchUpdate example_runtime example_entry example_world =
     (\<lparr>o_client_id = ''t1'', o_server_id = None, o_status = StatusError,
       o_resolved_data = None, o_error = Some ''toISOString is not a function''\<rparr>,
      example_world\<lparr>tick := 1\<rparr>)"
proof -
  have found: "getTask (q_task_id example_entry) example_world = Some example_task"
    by (simp add: getTask_def mapRowToTask_def truthy_str_def example_entry_def
        example_world_def example_task_def)
  have client_wins:
    "\<not> js_gt (t_updated_at example_task) (getTime (p_updated_at (q_data example_entry)))"
    by (simp add: js_gt_def getTime_def example_task_def example_entry_def example_payload_def)
  have carried: "p_last_synced_at (q_data example_entry) = Some (IsoString 1200)"
    by (simp add: example_entry_def example_payload_def)
  show ?thesis
    using found client_wins carried
      update_carrying_last_synced_at_is_rejected[OF found client_wins carried, of example_runtime]
    by (simp add: example_entry_def example_runtime_def example_world_def)
qed

text \<open>
  C7 does not hold of the code, by the same defect in \<^verbatim>\<open>createTask\<close>. No live entity has
  the item's \<^verbatim>\<open>task_id\<close>, so the update falls back to a create; the payload carries
  \<^verbatim>\<open>last_synced_at\<close> as a string, \<^verbatim>\<open>createTask\<close> throws while it builds the arguments of its
  \<^verbatim>\<open>INSERT\<close>, and the outcome is an error with no server identity: no entity is created.
\<close>

theorem fallback_create_carrying_last_synced_at_is_rejected:
  assumes "getTask (q_task_id item) w = None"
    and "p_last_synced_at (q_data item) = Some (IsoString s)"
  shows "handleBatchUpdate rt item w =
           (\<lparr>o_client_id = q_task_id item, o_server_id = None, o_status = StatusError,
             o_resolved_data = None, o_error = Some (msg_not_a_function rt)\<rparr>,
            w\<lparr>tick := tick w + 3\<rparr>)"
  using assms
  by (simp add: handleBatchUpdate_def createTask_def new_Date_def uuidv4_def
      error_outcome_def Let_def)

theorem fallback_create_carrying_last_synced_at_is_rejected_witness:
  "getTask (q_task_id example_entry) empty_world = None \<and>
   p_last_synced_at (q_data example_entry) = Some (IsoString 1200) \<and>
   handleBatchUpdate example_runtime example_entry empty_world =
     (\<lparr>o_client_id = ''t1'', o_server_id = None, o_status = StatusError,
       o_resolved_data = None, o_error = Some ''toISOString is not a function''\<rparr>,
      empty_world\<lparr>tick := 3\<rparr>)"
proof -
  have missing: "getTask (q_task_id example_entry) empty_world = None"
    by (simp add: getTask_def empty_world_def)
  have carried: "p_last_synced_at (q_data example_entry) = Some (IsoString 1200)"
    by (simp add: example_entry_def example_payload_def)
  show ?thesis
    using missing carried
      fallback_create_carrying_last_synced_at_is_rejected[OF missing carried, of example_runtime]
    by (simp add: example_entry_def example_runtime_def empty_world_def)
qed

text \<open>
  What the update path does do. First, the server's version wins when its timestamp is
  strictly greater: the outcome is a success whose data is the stored task, and the state
  is untouched.
\<close>

theorem update_server_newer_keeps_server_version:
  assumes "getTask (q_task_id item) w = Some existing"
    and "js_gt (t_updated_at existing) (getTime (p_updated_at (q_data item)))"
  shows "handleBatchUpdate rt item w =
           (\<lparr>o_client_id = q_task_id item, o_server_id = server_id_or_id (task_obj existing),
             o_status = StatusSuccess, o_resolved_data = Some (task_obj existing),
             o_error = None\<rparr>, w)"
  using assms by (simp add: handleBatchUpdate_def update_outcome_def Let_def)

theorem update_server_newer_keeps_server_version_witness:
  "getTask (q_task_id stale_entry) example_world = Some example_task \<and>
   js_gt (t_updated_at example_task) (getTime (p_updated_at (q_data stale_entry))) \<and>
   handleBatchUpdate example_runtime stale_entry example_world =
     (\<lparr>o_client_id = ''t1'', o_server_id = Some ''t1'', o_status = StatusSuccess,
       o_resolved_data = Some (task_obj example_task), o_error = None\<rparr>, example_world)"
proof -
  have found: "getTask (q_task_id stale_entry) example_world = Some example_task"
    by (simp add: getTask_def mapRowToTask_def truthy_str_def stale_entry_def example_entry_def
        example_world_def example_task_def)
  have newer: "js_gt (t_updated_at example_task) (getTime (p_updated_at (q_data stale_entry)))"
    by (simp add: js_gt_def getTime_def example_task_def stale_entry_def example_entry_def
        example_payload_def)
  show ?thesis
    using found newer update_server_newer_keeps_server_version[OF found newer, of example_runtime]
    by (simp add: stale_entry_def example_entry_def server_id_or_id_def task_obj_def
        truthy_str_def example_task_def)
qed

lemma updateTask_applied:
  assumes "getTask i w = Some existing" and "p_last_synced_at updates = None"
  shows "fst (updateTask rt i updates w) =
           Inr (Some ((spread (task_obj existing) updates)
                  \<lparr>p_updated_at := Some (DateObj (date_at rt (tick w))),
                   p_sync_status := Some Pending\<rparr>)) \<and>
         tasks (snd (updateTask rt i updates w)) =
           map (\<lambda>r. if t_id r = i \<and> \<not> t_is_deleted r
                     then updated_row existing updates (date_at rt (tick w)) r
                     else r) (tasks w)"
proof -
  have lsa: "p_last_synced_at (spread (task_obj existing) updates) =
      map_option DateObj (t_last_synced_at existing)"
    using assms(2) by (simp add: spread_def or_else_def task_obj_def)
  show ?thesis
  proof (cases "t_last_synced_at existing")
    case None
    with assms(1) lsa show ?thesis
      by (simp add: updateTask_def new_Date_def tasks_addToSyncQueue getTime_def Let_def
          spread_def task_obj_def updated_row_def)
  next
    case (Some a)
    with assms(1) lsa show ?thesis
      by (simp add: updateTask_def new_Date_def tasks_addToSyncQueue getTime_def Let_def
          spread_def task_obj_def updated_row_def)
  qed
qed

text \<open>
  Second, when the server's timestamp is not strictly greater (a tie included) and the
  payload carries no \<^verbatim>\<open>last_synced_at\<close>, the update is applied: the outcome is a success
  whose data is the stored task overlaid with the payload, and the live row of the task
  has the payload's title and completion flag, the time of the call and the status
  \<^verbatim>\<open>pending\<close>.
\<close>

theorem update_client_not_older_is_applied:
  assumes "getTask (q_task_id item) w = Some existing"
    and "\<not> js_gt (t_updated_at existing) (getTime (p_updated_at (q_data item)))"
    and "p_last_synced_at (q_data item) = None"
  shows "(let (outcome, w') = handleBatchUpdate rt item w;
              now = date_at rt (tick w)
          in o_status outcome = StatusSuccess \<and> o_error outcome = None \<and>
             o_resolved_data outcome =
               Some ((spread (task_obj existing) (q_data item))
                       \<lparr>p_updated_at := Some (DateObj now), p_sync_status := Some Pending\<rparr>) \<and>
             (\<exists>t \<in> set (tasks w'). t_id t = q_task_id item \<and> \<not> t_is_deleted t) \<and>
             (\<forall>t \<in> set (tasks w'). t_id t = q_task_id item \<and> \<not> t_is_deleted t \<longrightarrow>
                 t_title t = (case p_title (q_data item) of None \<Rightarrow> t_title existing | Some v \<Rightarrow> v) \<and>
                 t_completed t = (case p_completed (q_data item) of None \<Rightarrow> t_completed existing | Some c \<Rightarrow> c) \<and>
                 t_updated_at t = now \<and> t_sync_status t = Pending))"
proof -
  define now where "now = date_at rt (tick w)"
  define F where "F = updated_row existing (q_data item) now"
  obtain res w' where u: "updateTask rt (q_task_id item) (q_data item) w = (res, w')"
    by (cases "updateTask rt (q_task_id item) (q_data item) w")
  have res: "res = Inr (Some ((spread (task_obj existing) (q_data item))
      \<lparr>p_updated_at := Some (DateObj now), p_sync_status := Some Pending\<rparr>))"
    and rows: "tasks w' =
      map (\<lambda>r. if t_id r = q_task_id item \<and> \<not> t_is_deleted r then F r else r) (tasks w)"
    using updateTask_applied[OF assms(1) assms(3), of rt] u by (simp_all add: now_def F_def)
  have same: "t_id (F r) = t_id r \<and> t_is_deleted (F r) = t_is_deleted r" for r
    by (simp add: F_def updated_row_def)
  obtain row where row: "row \<in> set (tasks w)" "t_id row = q_task_id item" "\<not> t_is_deleted row"
    using getTask_Some[OF assms(1)] by blast
  have h: "handleBatchUpdate rt item w =
      (update_outcome item ((spread (task_obj existing) (q_data item))
          \<lparr>p_updated_at := Some (DateObj now), p_sync_status := Some Pending\<rparr>), w')"
    using assms(1,2) u res by (simp add: handleBatchUpdate_def Let_def)
  have "F row \<in> set (tasks w')"
    unfolding rows using row by (auto simp: image_iff intro!: bexI[of _ row])
  then have ex: "\<exists>t \<in> set (tasks w'). t_id t = q_task_id item \<and> \<not> t_is_deleted t"
    using same[of row] row by auto
  have all: "\<forall>t \<in> set (tasks w'). t_id t = q_task_id item \<and> \<not> t_is_deleted t \<longrightarrow>
       t_title t = (case p_title (q_data item) of None \<Rightarrow> t_title existing | Some v \<Rightarrow> v) \<and>
       t_completed t = (case p_completed (q_data item) of None \<Rightarrow> t_completed existing | Some c \<Rightarrow> c) \<and>
       t_updated_at t = now \<and> t_sync_status t = Pending"
  proof (intro ballI impI)
    fix t assume t: "t \<in> set (tasks w')" and m: "t_id t = q_task_id item \<and> \<not> t_is_deleted t"
    from t obtain r where r: "r \<in> set (tasks w)"
      and tr: "t = (if t_id r = q_task_id item \<and> \<not> t_is_deleted r then F r else r)"
      unfolding rows by auto
    have "t_id r = q_task_id item \<and> \<not> t_is_deleted r"
      using m tr by (cases "t_id r = q_task_id item \<and> \<not> t_is_deleted r") simp_all
    then have "t = F r" using tr by simp
    then show "t_title t = (case p_title (q_data item) of None \<Rightarrow> t_title existing | Some v \<Rightarrow> v) \<and>
       t_completed t = (case p_completed (q_data item) of None \<Rightarrow> t_completed existing | Some c \<Rightarrow> c) \<and>
       t_updated_at t = now \<and> t_sync_status t = Pending"
      by (simp add: F_def updated_row_def)
  qed
  show ?thesis
    using ex all by (simp add: h update_outcome_def Let_def now_def)
qed

theorem update_client_not_older_is_applied_witness:
  "getTask (q_task_id plain_entry) example_world = Some example_task \<and>
   \<not> js_gt (t_updated_at example_task) (getTime (p_updated_at (q_data plain_entry))) \<and>
   p_last_synced_at (q_data plain_entry) = None \<and>
   o_status (fst (handleBatchUpdate example_runtime plain_entry example_world)) = StatusSuccess \<and>
   map t_title (tasks (snd (handleBatchUpdate example_runtime plain_entry example_world))) =
     [''Buy oat milk''] \<and>
   map t_updated_at (tasks (snd (handleBatchUpdate example_runtime plain_entry example_world))) =
     [5000]"
proof -
  have found: "getTask (q_task_id plain_entry) example_world = Some example_task"
    by (simp add: getTask_def mapRowToTask_def truthy_str_def plain_entry_def example_entry_def
        example_world_def example_task_def)
  have client_wins:
    "\<not> js_gt (t_updated_at example_task) (getTime (p_updated_at (q_data plain_entry)))"
    by (simp add: js_gt_def getTime_def example_task_def plain_entry_def example_entry_def
        example_payload_def)
  have absent: "p_last_synced_at (q_data plain_entry) = None"
    by (simp add: plain_entry_def example_entry_def example_payload_def)
  have rows: "tasks (snd (handleBatchUpdate example_runtime plain_entry example_world)) =
      [updated_row example_task (q_data plain_entry) 5000 example_task]"
    using found client_wins updateTask_applied[OF found absent, of example_runtime]
    by (simp add: handleBatchUpdate_def Let_def split_def example_world_def example_task_def
        example_runtime_def plain_entry_def example_entry_def)
  show ?thesis
    using found client_wins absent rows
      update_client_not_older_is_applied[OF found client_wins absent, of example_runtime]
    by (simp add: split_def Let_def updated_row_def plain_entry_def example_entry_def
        example_payload_def)
qed

text \<open>
  Third, an update of an entity the server does not hold, with a payload that carries no
  \<^verbatim>\<open>last_synced_at\<close>, creates the entity: the outcome is a success with the identity
  newly drawn, and a live task with that identity and the payload's title is in the table.
\<close>

theorem update_of_unknown_entity_creates:
  assumes "getTask (q_task_id item) w = None"
    and "p_last_synced_at (q_data item) = None"
  shows "(let (outcome, w') = handleBatchUpdate rt item w;
              newId = uuid_at rt (tick w)
          in o_status outcome = StatusSuccess \<and> o_error outcome = None \<and>
             o_server_id outcome = Some newId \<and>
             (\<exists>t \<in> set (tasks w'). t_id t = newId \<and> \<not> t_is_deleted t \<and>
                t_title t = or_str (p_title (q_data item)) [] \<and>
                o_resolved_data outcome = Some (task_obj t)) \<and>
             length (tasks w') = length (tasks w) + 1)"
  using assms
  by (simp add: handleBatchUpdate_def createTask_def new_Date_def uuidv4_def
      addToSyncQueue_def Let_def)

theorem update_of_unknown_entity_creates_witness:
  "getTask (q_task_id plain_entry) empty_world = None \<and>
   p_last_synced_at (q_data plain_entry) = None \<and>
   o_status (fst (handleBatchUpdate example_runtime plain_entry empty_world)) = StatusSuccess \<and>
   o_server_id (fst (handleBatchUpdate example_runtime plain_entry empty_world)) = Some ''uuid-'' \<and>
   map t_title (tasks (snd (handleBatchUpdate example_runtime plain_entry empty_world))) =
     [''Buy oat milk'']"
proof -
  have missing: "getTask (q_task_id plain_entry) empty_world = None"
    by (simp add: getTask_def empty_world_def)
  have absent: "p_last_synced_at (q_data plain_entry) = None"
    by (simp add: plain_entry_def example_entry_def example_payload_def)
  show ?thesis
    using missing absent update_of_unknown_entity_creates[OF missing absent, of example_runtime]
    by (simp add: handleBatchUpdate_def createTask_def new_Date_def uuidv4_def
        addToSyncQueue_def Let_def or_str_def plain_entry_def example_entry_def
        example_payload_def example_runtime_def empty_world_def)
qed

subsection \<open>A delete on the receiving side\<close>

lemma find_after_delete:
  "find (\<lambda>r. t_id r = i \<and> \<not> t_is_deleted r)
     (map (\<lambda>r. if t_id r = i
               then r\<lparr>t_is_deleted := True, t_updated_at := now, t_sync_status := Pending\<rparr>
               else r) rows) = None"
  by (induction rows) auto

lemma deleteTask_missing:
  assumes "find (\<lambda>r. t_id r = i \<and> \<not> t_is_deleted r) (tasks w) = None"
  shows "deleteTask rt i w = (False, w)"
  using assms by (simp add: deleteTask_def)

lemma deleteTask_present:
  assumes "find (\<lambda>r. t_id r = i \<and> \<not> t_is_deleted r) (tasks w) = Some existing"
  shows "tasks (snd (deleteTask rt i w)) =
           map (\<lambda>r. if t_id r = i
                     then r\<lparr>t_is_deleted := True, t_updated_at := date_at rt (tick w),
                            t_sync_status := Pending\<rparr>
                     else r) (tasks w)"
  using assms by (simp add: deleteTask_def tasks_addToSyncQueue new_Date_def Let_def)

text \<open>A second \<^verbatim>\<open>deleteTask\<close> of the same id finds no live row and changes nothing.\<close>

lemma deleteTask_again:
  "deleteTask rt i (snd (deleteTask rt i w)) = (False, snd (deleteTask rt i w))"
proof (cases "find (\<lambda>r. t_id r = i \<and> \<not> t_is_deleted r) (tasks w)")
  case None
  then show ?thesis by (simp add: deleteTask_missing)
next
  case (Some existing)
  show ?thesis
    by (rule deleteTask_missing) (simp only: deleteTask_present[OF Some] find_after_delete)
qed

lemma deleteTask_marks:
  assumes "t \<in> set (tasks (snd (deleteTask rt i w)))" and "t_id t = i"
  shows "t_is_deleted t"
proof (cases "find (\<lambda>r. t_id r = i \<and> \<not> t_is_deleted r) (tasks w)")
  case None
  then have "\<not> (\<exists>r \<in> set (tasks w). t_id r = i \<and> \<not> t_is_deleted r)"
    by (simp add: find_None_iff)
  moreover have "t \<in> set (tasks w)"
    using assms(1) None by (simp add: deleteTask_missing)
  ultimately show ?thesis using assms(2) by blast
next
  case (Some existing)
  from assms(1) obtain r where "r \<in> set (tasks w)"
    and "t = (if t_id r = i
              then r\<lparr>t_is_deleted := True, t_updated_at := date_at rt (tick w),
                     t_sync_status := Pending\<rparr>
              else r)"
    unfolding deleteTask_present[OF Some] by auto
  then show ?thesis using assms(2) by (cases "t_id r = i") simp_all
qed

text \<open>
  C8. A delete item is applied twice, the second time on the state the first application
  left. Both outcomes have the status \<^verbatim>\<open>success\<close>, no error, and a payload whose
  \<^verbatim>\<open>is_deleted\<close> is true. After the first application every row of the entity is marked
  deleted, and the second application leaves the state exactly as it found it.
\<close>

theorem delete_twice:
  "(let (r1, w1) = handleBatchDelete rt item w;
        (r2, w2) = handleBatchDelete rt item w1
    in o_status r1 = StatusSuccess \<and> o_status r2 = StatusSuccess \<and>
       o_error r1 = None \<and> o_error r2 = None \<and>
       (\<exists>d. o_resolved_data r1 = Some d \<and> p_is_deleted d = Some True) \<and>
       (\<exists>d. o_resolved_data r2 = Some d \<and> p_is_deleted d = Some True) \<and>
       (\<forall>t \<in> set (tasks w1). t_id t = q_task_id item \<longrightarrow> t_is_deleted t) \<and>
       w2 = w1)"
proof -
  obtain b w1 where d1: "deleteTask rt (q_task_id item) w = (b, w1)"
    by (cases "deleteTask rt (q_task_id item) w")
  have d2: "deleteTask rt (q_task_id item) w1 = (False, w1)"
    using deleteTask_again[of rt "q_task_id item" w] d1 by simp
  have m: "\<forall>t \<in> set (tasks w1). t_id t = q_task_id item \<longrightarrow> t_is_deleted t"
    using deleteTask_marks[of _ rt "q_task_id item" w] d1 by simp
  show ?thesis
    using d1 d2 m by (simp add: handleBatchDelete_def)
qed

theorem delete_twice_witness:
  "(let (r1, w1) = handleBatchDelete example_runtime delete_entry example_world;
        (r2, w2) = handleBatchDelete example_runtime delete_entry w1
    in o_status r1 = StatusSuccess \<and> o_status r2 = StatusSuccess \<and>
       map t_is_deleted (tasks w1) = [True] \<and>
       map q_operation (sync_queue w1) = [''update'', ''delete''] \<and>
       w2 = w1)"
  using delete_twice[of example_runtime delete_entry example_world]
  by (simp add: handleBatchDelete_def deleteTask_def addToSyncQueue_def uuidv4_def new_Date_def
      delete_entry_def example_entry_def example_world_def example_task_def Let_def)

text \<open>
  C10. Whatever the state, the outcome of a delete item is a success whose \<^verbatim>\<open>server_id\<close>
  is the client's \<^verbatim>\<open>task_id\<close>. When the server holds no live entity with that id (none at
  all, or only deleted ones), \<^verbatim>\<open>deleteTask\<close> returns \<^verbatim>\<open>false\<close> and changes nothing; the handler
  ignores the value, so the state is unchanged and the delete is still reported applied.
\<close>

theorem delete_of_unknown_entity:
  "(\<forall>w'. fst (handleBatchDelete rt item w') =
      \<lparr>o_client_id = q_task_id item, o_server_id = Some (q_task_id item),
       o_status = StatusSuccess,
       o_resolved_data = Some ((q_data item)\<lparr>p_is_deleted := Some True\<rparr>), o_error = None\<rparr>) \<and>
   ((\<forall>t \<in> set (tasks w). t_id t = q_task_id item \<longrightarrow> t_is_deleted t) \<longrightarrow>
      deleteTask rt (q_task_id item) w = (False, w) \<and> snd (handleBatchDelete rt item w) = w)"
proof (intro conjI allI impI)
  fix w' show "fst (handleBatchDelete rt item w') =
      \<lparr>o_client_id = q_task_id item, o_server_id = Some (q_task_id item),
       o_status = StatusSuccess,
       o_resolved_data = Some ((q_data item)\<lparr>p_is_deleted := Some True\<rparr>), o_error = None\<rparr>"
    by (simp add: handleBatchDelete_def split: prod.splits)
next
  assume "\<forall>t \<in> set (tasks w). t_id t = q_task_id item \<longrightarrow> t_is_deleted t"
  then have "find (\<lambda>r. t_id r = q_task_id item \<and> \<not> t_is_deleted r) (tasks w) = None"
    by (auto simp: find_None_iff)
  then show unchanged: "deleteTask rt (q_task_id item) w = (False, w)"
    by (simp add: deleteTask_def)
  then show "snd (handleBatchDelete rt item w) = w"
    by (simp add: handleBatchDelete_def)
qed

theorem delete_of_unknown_entity_witness:
  "tasks empty_world = [] \<and>
   deleteTask example_runtime (q_task_id delete_entry) empty_world = (False, empty_world) \<and>
   o_status (fst (handleBatchDelete example_runtime delete_entry empty_world)) = StatusSuccess \<and>
   o_server_id (fst (handleBatchDelete example_runtime delete_entry empty_world)) = Some ''t1'' \<and>
   snd (handleBatchDelete example_runtime delete_entry empty_world) = empty_world"
  using delete_of_unknown_entity[of example_runtime delete_entry empty_world]
  by (simp add: empty_world_def delete_entry_def example_entry_def)

subsection \<open>Fetching the pending entries\<close>

lemma queue_le_total: "\<not> queue_le x y \<Longrightarrow> queue_le y x"
  by (auto simp: queue_le_def)

lemma queue_le_trans: "queue_le x y \<Longrightarrow> queue_le y z \<Longrightarrow> queue_le x z"
  by (auto simp: queue_le_def)

lemma mset_insort_queue: "mset (insort_queue x xs) = add_mset x (mset xs)"
  by (induction xs) auto

lemma set_insort_queue: "set (insort_queue x xs) = insert x (set xs)"
  by (induction xs) auto

lemma sorted_insort_queue:
  "sorted_wrt queue_le xs \<Longrightarrow> sorted_wrt queue_le (insort_queue x xs)"
proof (induction xs)
  case Nil
  then show ?case by simp
next
  case (Cons y ys)
  show ?case
  proof (cases "queue_le x y")
    case True
    then have "\<forall>z \<in> set ys. queue_le x z"
      using Cons.prems queue_le_trans by auto
    with True Cons.prems show ?thesis by simp
  next
    case False
    then have "queue_le y x" by (rule queue_le_total)
    with False Cons show ?thesis by (auto simp: set_insort_queue)
  qed
qed

lemma mset_order_by: "mset (order_by_task_id_created_at rows) = mset rows"
  unfolding order_by_task_id_created_at_def
  by (induction rows) (simp_all add: mset_insort_queue)

lemma sorted_order_by: "sorted_wrt queue_le (order_by_task_id_created_at rows)"
  unfolding order_by_task_id_created_at_def
  by (induction rows) (simp_all add: sorted_insort_queue)

text \<open>
  C9. \<^verbatim>\<open>getSyncQueueItems\<close> returns exactly the rows of the queue whose retry count is below
  3, each as often as the queue holds it, and in this order: of two entries returned, the
  earlier one has the smaller task id, or the same task id and a creation time that is
  not later.
\<close>

theorem getSyncQueueItems_pending_ordered:
  "mset (getSyncQueueItems w) = filter_mset (\<lambda>q. q_retry_count q < 3) (mset (sync_queue w)) \<and>
   set (getSyncQueueItems w) = {q \<in> set (sync_queue w). q_retry_count q < 3} \<and>
   sorted_wrt (\<lambda>a b. q_task_id a < q_task_id b \<or>
                      (q_task_id a = q_task_id b \<and> q_created_at a \<le> q_created_at b))
     (getSyncQueueItems w)"
proof (intro conjI)
  show m: "mset (getSyncQueueItems w) =
      filter_mset (\<lambda>q. q_retry_count q < 3) (mset (sync_queue w))"
    by (simp add: getSyncQueueItems_def mset_order_by)
  have "set (getSyncQueueItems w) = set_mset (mset (getSyncQueueItems w))" by simp
  also have "\<dots> = {q \<in> set (sync_queue w). q_retry_count q < 3}"
    unfolding m by auto
  finally show "set (getSyncQueueItems w) = {q \<in> set (sync_queue w). q_retry_count q < 3}" .
  have "sorted_wrt queue_le (getSyncQueueItems w)"
    by (simp add: getSyncQueueItems_def sorted_order_by)
  then show "sorted_wrt (\<lambda>a b. q_task_id a < q_task_id b \<or>
                      (q_task_id a = q_task_id b \<and> q_created_at a \<le> q_created_at b))
     (getSyncQueueItems w)"
    by (simp add: queue_le_def[abs_def])
qed

theorem getSyncQueueItems_pending_ordered_witness:
  "getSyncQueueItems busy_world = [other_entry, example_entry, later_entry] \<and>
   sync_queue busy_world = [later_entry, exhausted_entry, example_entry, other_entry]"
  using getSyncQueueItems_pending_ordered[of busy_world]
  by (simp add: getSyncQueueItems_def order_by_task_id_created_at_def queue_le_def busy_world_def
      later_entry_def exhausted_entry_def other_entry_def example_entry_def)

end
